theory Spec2Isabelle
  imports Complex_Main
begin

section \<open>gammapy.cube.models: data model\<close>

text \<open>
  Python objects whose identity matters (Parameter objects, numpy arrays, Map objects)
  live in a store and are named by their address. Models hold addresses, never copies.
\<close>

type_synonym ref = nat

text \<open>
  The exceptions raised on the paths of \<^verbatim>\<open>models.py\<close> and of the calls it makes, and
  \<open>EmptyCollection\<close>, the error the specification designs for the evaluation of an
  empty collection: no statement of \<^verbatim>\<open>models.py\<close> raises it.
\<close>

datatype error =
    NotImplementedError
  | ValueError
  | IndexError
  | UnboundLocalError
  | UnitConversionError
  | LookupError
  | TypeError
  | EmptyCollection

text \<open>
  A float64 value: a finite value (as a real number: rounding and overflow are idealised,
  the two zeros are one), the two infinities, or NaN.
\<close>

datatype f64 = Num real | PInf | NInf | NaN

text \<open>
  A unit of measure: a scale factor and the exponents of the base dimensions. A unit
  whose exponents all vanish is dimensionless.
\<close>

datatype aunit = Unit (scale: real) (dims: "int list")

text \<open>A numpy array: its shape and its elements in C order.\<close>

record ndarray =
  shape :: "nat list"
  flat :: "f64 list"

text \<open>An astropy Quantity: an array of values tagged with a unit.\<close>

record quantity =
  qvalue :: ndarray
  qunit :: aunit

text \<open>
  Modelled from the spec: the Parameter class of \<^verbatim>\<open>utils.fitting\<close> is not under src/.
  A named scalar with value, unit, optional bounds (NaN when absent) and a frozen flag.
\<close>

record Parameter =
  name :: string
  "value" :: f64
  unit :: aunit
  pmin :: f64
  pmax :: f64
  frozen :: bool

text \<open>
  Modelled from the spec: the parameter container of \<^verbatim>\<open>utils.fitting\<close> is not under
  src/. It keeps the list of Parameter references it is given, in order, with no
  renaming and no deduplication, and an optional covariance matrix.
\<close>

record Parameters =
  par_list :: "ref list"
  covariance :: "ndarray option"

definition Parameters_init :: "ref list \<Rightarrow> Parameters" where
  "Parameters_init ps = \<lparr>par_list = ps, covariance = None\<rparr>"

text \<open>
  The spatial and spectral components are objects of other modules: each has a parameter
  container and is callable; a call reads the current parameter values and may raise.
\<close>

record SkySpatialModel =
  spatial_parameters :: Parameters
  spatial_call :: "(ref \<Rightarrow> Parameter) \<Rightarrow> quantity \<Rightarrow> quantity \<Rightarrow> error + quantity"

record SpectralModel =
  spectral_parameters :: Parameters
  spectral_call :: "(ref \<Rightarrow> Parameter) \<Rightarrow> quantity \<Rightarrow> error + quantity"

record SkyModel =
  sm_name :: string
  spatial_model :: SkySpatialModel
  spectral_model :: SpectralModel
  sm_parameters :: Parameters

text \<open>Keyword arguments: a dictionary from names to values.\<close>

datatype kwval = KStr string | KNum f64 | KNone

type_synonym kwargs = "string \<rightharpoonup> kwval"

record SkyDiffuseCube =
  sdc_map :: ref
  sdc_norm :: ref
  sdc_meta :: "string \<rightharpoonup> string"
  interp_kwargs :: kwargs
  sdc_parameters :: Parameters

record BackgroundModel =
  bm_map :: ref
  bm_norm :: ref
  bm_tilt :: ref
  bm_reference :: ref
  bm_parameters :: Parameters

text \<open>The members of a sky model collection are SkyModel or SkyDiffuseCube objects.\<close>

datatype sky_leaf = Leaf_SkyModel SkyModel | Leaf_SkyDiffuseCube SkyDiffuseCube

record SkyModels =
  skymodels :: "sky_leaf list"
  sms_parameters :: Parameters

record BackgroundModels =
  models :: "BackgroundModel list"
  bms_parameters :: Parameters

text \<open>What an operand of \<^verbatim>\<open>+\<close> or \<^verbatim>\<open>+=\<close> can be, as \<^verbatim>\<open>isinstance\<close> sees it.\<close>

datatype pyobj =
    PSkyModel SkyModel
  | PSkyDiffuseCube SkyDiffuseCube
  | PSkyModels SkyModels
  | PBackgroundModel BackgroundModel
  | PBackgroundModels BackgroundModels
  | POther

section \<open>Floating-point operations\<close>

text \<open>
  The arithmetic of numpy on float64 follows IEEE 754: a division by zero gives an
  infinity or NaN and raises nothing, and \<^verbatim>\<open>np.power\<close> is the C function \<^verbatim>\<open>pow\<close>.
\<close>

fun fneg :: "f64 \<Rightarrow> f64" where
  "fneg (Num a) = Num (- a)"
| "fneg PInf = NInf"
| "fneg NInf = PInf"
| "fneg NaN = NaN"

fun fadd :: "f64 \<Rightarrow> f64 \<Rightarrow> f64" where
  "fadd NaN _ = NaN"
| "fadd _ NaN = NaN"
| "fadd (Num a) (Num b) = Num (a + b)"
| "fadd PInf NInf = NaN"
| "fadd NInf PInf = NaN"
| "fadd PInf _ = PInf"
| "fadd _ PInf = PInf"
| "fadd NInf _ = NInf"
| "fadd _ NInf = NInf"

fun fmul :: "f64 \<Rightarrow> f64 \<Rightarrow> f64" where
  "fmul NaN _ = NaN"
| "fmul _ NaN = NaN"
| "fmul (Num a) (Num b) = Num (a * b)"
| "fmul (Num a) PInf = (if a = 0 then NaN else if 0 < a then PInf else NInf)"
| "fmul (Num a) NInf = (if a = 0 then NaN else if 0 < a then NInf else PInf)"
| "fmul PInf (Num b) = (if b = 0 then NaN else if 0 < b then PInf else NInf)"
| "fmul NInf (Num b) = (if b = 0 then NaN else if 0 < b then NInf else PInf)"
| "fmul PInf PInf = PInf"
| "fmul PInf NInf = NInf"
| "fmul NInf PInf = NInf"
| "fmul NInf NInf = PInf"

fun fdiv :: "f64 \<Rightarrow> f64 \<Rightarrow> f64" where
  "fdiv NaN _ = NaN"
| "fdiv _ NaN = NaN"
| "fdiv (Num a) (Num b) =
     (if b = 0 then (if a = 0 then NaN else if 0 < a then PInf else NInf) else Num (a / b))"
| "fdiv (Num a) PInf = Num 0"
| "fdiv (Num a) NInf = Num 0"
| "fdiv PInf (Num b) = (if 0 \<le> b then PInf else NInf)"
| "fdiv NInf (Num b) = (if 0 \<le> b then NInf else PInf)"
| "fdiv PInf PInf = NaN"
| "fdiv PInf NInf = NaN"
| "fdiv NInf PInf = NaN"
| "fdiv NInf NInf = NaN"

definition is_odd_int :: "real \<Rightarrow> bool" where
  "is_odd_int b = (b = of_int \<lfloor>b\<rfloor> \<and> odd \<lfloor>b\<rfloor>)"

text \<open>
  \<^verbatim>\<open>pow(x, y)\<close>: 1 when \<open>y\<close> is zero or \<open>x\<close> is 1, whatever the other argument, also
  NaN; NaN for a negative base with a finite exponent that is not an integer.
\<close>

fun fpow :: "f64 \<Rightarrow> f64 \<Rightarrow> f64" where
  "fpow x (Num b) =
     (if b = 0 then Num 1
      else case x of
        NaN \<Rightarrow> NaN
      | PInf \<Rightarrow> (if b < 0 then Num 0 else PInf)
      | NInf \<Rightarrow> (if b < 0 then Num 0 else if is_odd_int b then NInf else PInf)
      | Num a \<Rightarrow>
          (if a = 0 then (if b < 0 then PInf else Num 0)
           else if 0 < a then Num (a powr b)
           else if b = of_int \<lfloor>b\<rfloor>
             then Num (if even \<lfloor>b\<rfloor> then (- a) powr b else - ((- a) powr b))
           else NaN))"
| "fpow x PInf =
     (case x of
        NaN \<Rightarrow> NaN
      | PInf \<Rightarrow> PInf
      | NInf \<Rightarrow> PInf
      | Num a \<Rightarrow> (if \<bar>a\<bar> = 1 then Num 1 else if \<bar>a\<bar> < 1 then Num 0 else PInf))"
| "fpow x NInf =
     (case x of
        NaN \<Rightarrow> NaN
      | PInf \<Rightarrow> Num 0
      | NInf \<Rightarrow> Num 0
      | Num a \<Rightarrow> (if \<bar>a\<bar> = 1 then Num 1 else if \<bar>a\<bar> < 1 then PInf else Num 0))"
| "fpow x NaN = (if x = Num 1 then Num 1 else NaN)"

section \<open>Units\<close>

fun dims_sub :: "int list \<Rightarrow> int list \<Rightarrow> int list" where
  "dims_sub [] ys = map uminus ys"
| "dims_sub xs [] = xs"
| "dims_sub (x # xs) (y # ys) = (x - y) # dims_sub xs ys"

fun dims_add :: "int list \<Rightarrow> int list \<Rightarrow> int list" where
  "dims_add [] ys = ys"
| "dims_add xs [] = xs"
| "dims_add (x # xs) (y # ys) = (x + y) # dims_add xs ys"

definition unit_mul :: "aunit \<Rightarrow> aunit \<Rightarrow> aunit" where
  "unit_mul u v = Unit (scale u * scale v) (dims_add (dims u) (dims v))"

definition unit_div :: "aunit \<Rightarrow> aunit \<Rightarrow> aunit" where
  "unit_div u v = Unit (scale u / scale v) (dims_sub (dims u) (dims v))"

text \<open>The unit written \<^verbatim>\<open>""\<close>: dimensionless, unscaled.\<close>

definition dimensionless :: aunit where
  "dimensionless = Unit 1 []"

text \<open>
  The factor that takes values in the unit \<open>u\<close> to values in the unit \<open>v\<close>; astropy
  raises UnitConversionError when the two differ in dimension.
\<close>

definition unit_to :: "aunit \<Rightarrow> aunit \<Rightarrow> error + real" where
  "unit_to u v =
     (if list_all (\<lambda>e. e = 0) (dims_sub (dims u) (dims v))
      then Inr (scale u / scale v) else Inl UnitConversionError)"

section \<open>Arrays and broadcasting\<close>

definition scalar :: "f64 \<Rightarrow> ndarray" where
  "scalar x = \<lparr>shape = [], flat = [x]\<rparr>"

text \<open>The invariant of every numpy array: as many elements as the shape says.\<close>

definition wf_ndarray :: "ndarray \<Rightarrow> bool" where
  "wf_ndarray a = (length (flat a) = prod_list (shape a))"

text \<open>
  Broadcasting aligns the shapes at their last axis; two sizes agree when they are equal
  or one of them is 1; a missing leading axis counts as 1.
\<close>

fun broadcast_rev :: "nat list \<Rightarrow> nat list \<Rightarrow> nat list option" where
  "broadcast_rev [] ys = Some ys"
| "broadcast_rev xs [] = Some xs"
| "broadcast_rev (x # xs) (y # ys) =
     (if x = y \<or> y = 1 then map_option ((#) x) (broadcast_rev xs ys)
      else if x = 1 then map_option ((#) y) (broadcast_rev xs ys)
      else None)"

definition broadcast_shapes :: "nat list \<Rightarrow> nat list \<Rightarrow> nat list option" where
  "broadcast_shapes a b = map_option rev (broadcast_rev (rev a) (rev b))"

text \<open>Position of a multi-index in C order, and the multi-index of a position.\<close>

fun offset :: "nat list \<Rightarrow> nat list \<Rightarrow> nat" where
  "offset (n # ns) (i # is) = i * prod_list ns + offset ns is"
| "offset _ _ = 0"

fun unravel :: "nat list \<Rightarrow> nat \<Rightarrow> nat list" where
  "unravel [] k = []"
| "unravel (n # ns) k = (k div prod_list ns) # unravel ns (k mod prod_list ns)"

text \<open>
  The element an array contributes at the index \<open>idx\<close> of the broadcast result: its own
  trailing axes of \<open>idx\<close>, with 0 along every axis of size 1.
\<close>

definition bindex :: "nat list \<Rightarrow> nat list \<Rightarrow> nat list" where
  "bindex sa idx =
     map2 (\<lambda>n i. if n = 1 then 0 else i) sa (drop (length idx - length sa) idx)"

definition item :: "ndarray \<Rightarrow> nat list \<Rightarrow> f64" where
  "item a idx = flat a ! offset (shape a) idx"

definition bitem :: "ndarray \<Rightarrow> nat list \<Rightarrow> f64" where
  "bitem a idx = item a (bindex (shape a) idx)"

text \<open>The indices of an array of shape \<open>s\<close>.\<close>

definition valid_index :: "nat list \<Rightarrow> nat list \<Rightarrow> bool" where
  "valid_index s idx = list_all2 (\<lambda>i n. i < n) idx s"

text \<open>An element-wise binary operation of numpy; incompatible shapes raise ValueError.\<close>

definition np_binop :: "(f64 \<Rightarrow> f64 \<Rightarrow> f64) \<Rightarrow> ndarray \<Rightarrow> ndarray \<Rightarrow> error + ndarray" where
  "np_binop f a b =
     (case broadcast_shapes (shape a) (shape b) of
        None \<Rightarrow> Inl ValueError
      | Some s \<Rightarrow>
          Inr \<lparr>shape = s,
               flat = map (\<lambda>k. f (bitem a (unravel s k)) (bitem b (unravel s k)))
                        [0..<prod_list s]\<rparr>)"

section \<open>Parameter aggregation\<close>

fun leaf_parameters :: "sky_leaf \<Rightarrow> Parameters" where
  "leaf_parameters (Leaf_SkyModel m) = sm_parameters m"
| "leaf_parameters (Leaf_SkyDiffuseCube m) = sdc_parameters m"

text \<open>The inner loop \<^verbatim>\<open>for p in model.parameters: parameters.append(p)\<close>.\<close>

fun append_each :: "ref list \<Rightarrow> ref list \<Rightarrow> ref list" where
  "append_each parameters [] = parameters"
| "append_each parameters (p # ps) = append_each (parameters @ [p]) ps"

text \<open>The outer loop \<^verbatim>\<open>for skymodel in skymodels\<close> of the two collection constructors.\<close>

fun aggregate :: "('m \<Rightarrow> Parameters) \<Rightarrow> ref list \<Rightarrow> 'm list \<Rightarrow> ref list" where
  "aggregate pars parameters [] = parameters"
| "aggregate pars parameters (m # ms) =
     aggregate pars (append_each parameters (par_list (pars m))) ms"

definition SkyModels_init :: "sky_leaf list \<Rightarrow> SkyModels" where
  "SkyModels_init ms =
     \<lparr>skymodels = ms, sms_parameters = Parameters_init (aggregate leaf_parameters [] ms)\<rparr>"

definition BackgroundModels_init :: "BackgroundModel list \<Rightarrow> BackgroundModels" where
  "BackgroundModels_init ms =
     \<lparr>models = ms, bms_parameters = Parameters_init (aggregate bm_parameters [] ms)\<rparr>"

definition SkyModel_init :: "SkySpatialModel \<Rightarrow> SpectralModel \<Rightarrow> string \<Rightarrow> SkyModel" where
  "SkyModel_init spatial spectral nm =
     \<lparr>sm_name = nm, spatial_model = spatial, spectral_model = spectral,
      sm_parameters = Parameters_init
        (par_list (spatial_parameters spatial) @ par_list (spectral_parameters spectral))\<rparr>"

section \<open>Addition and in-place extension\<close>

text \<open>\<^verbatim>\<open>SkyModelBase.__add__\<close>, as inherited by SkyModel and SkyDiffuseCube.\<close>

definition SkyModelBase_add :: "sky_leaf \<Rightarrow> pyobj \<Rightarrow> error + SkyModels" where
  "SkyModelBase_add self skymodel =
     (case skymodel of
        PSkyModels c \<Rightarrow> Inr (SkyModels_init ([self] @ skymodels c))
      | PSkyModel m \<Rightarrow> Inr (SkyModels_init ([self] @ [Leaf_SkyModel m]))
      | PSkyDiffuseCube m \<Rightarrow> Inr (SkyModels_init ([self] @ [Leaf_SkyDiffuseCube m]))
      | _ \<Rightarrow> Inl NotImplementedError)"

text \<open>\<^verbatim>\<open>SkyModels.__add__\<close>: works on a copy of the member list.\<close>

definition SkyModels_add :: "SkyModels \<Rightarrow> pyobj \<Rightarrow> error + SkyModels" where
  "SkyModels_add self skymodel =
     (case skymodel of
        PSkyModels c \<Rightarrow> Inr (SkyModels_init (skymodels self @ skymodels c))
      | PSkyModel m \<Rightarrow> Inr (SkyModels_init (skymodels self @ [Leaf_SkyModel m]))
      | PSkyDiffuseCube m \<Rightarrow> Inr (SkyModels_init (skymodels self @ [Leaf_SkyDiffuseCube m]))
      | _ \<Rightarrow> Inl NotImplementedError)"

text \<open>
  \<^verbatim>\<open>SkyModelBase.__radd__\<close> is \<^verbatim>\<open>return self.__add__(model)\<close>: the call goes to the
  receiver's own \<^verbatim>\<open>__add__\<close>, which is the base one for a leaf and the overriding one
  for a collection.
\<close>

definition SkyModelBase_radd :: "sky_leaf \<Rightarrow> pyobj \<Rightarrow> error + SkyModels" where
  "SkyModelBase_radd self model = SkyModelBase_add self model"

definition SkyModels_radd :: "SkyModels \<Rightarrow> pyobj \<Rightarrow> error + SkyModels" where
  "SkyModels_radd self model = SkyModels_add self model"

text \<open>
  \<^verbatim>\<open>SkyModels.__iadd__\<close>: extends the member list of \<^verbatim>\<open>self\<close> and returns
  \<^verbatim>\<open>self\<close>; no other attribute is assigned.
\<close>

definition SkyModels_iadd :: "SkyModels \<Rightarrow> pyobj \<Rightarrow> error + SkyModels" where
  "SkyModels_iadd self skymodel =
     (case skymodel of
        PSkyModels c \<Rightarrow> Inr (self\<lparr>skymodels := skymodels self @ skymodels c\<rparr>)
      | PSkyModel m \<Rightarrow> Inr (self\<lparr>skymodels := skymodels self @ [Leaf_SkyModel m]\<rparr>)
      | PSkyDiffuseCube m \<Rightarrow> Inr (self\<lparr>skymodels := skymodels self @ [Leaf_SkyDiffuseCube m]\<rparr>)
      | _ \<Rightarrow> Inl NotImplementedError)"

definition BackgroundModel_add :: "BackgroundModel \<Rightarrow> pyobj \<Rightarrow> error + BackgroundModels" where
  "BackgroundModel_add self model =
     (case model of
        PBackgroundModels c \<Rightarrow> Inr (BackgroundModels_init ([self] @ models c))
      | PBackgroundModel m \<Rightarrow> Inr (BackgroundModels_init ([self] @ [m]))
      | _ \<Rightarrow> Inl NotImplementedError)"

definition BackgroundModels_iadd :: "BackgroundModels \<Rightarrow> pyobj \<Rightarrow> error + BackgroundModels" where
  "BackgroundModels_iadd self model =
     (case model of
        PBackgroundModels c \<Rightarrow> Inr (self\<lparr>models := models self @ models c\<rparr>)
      | PBackgroundModel m \<Rightarrow> Inr (self\<lparr>models := models self @ [m]\<rparr>)
      | _ \<Rightarrow> Inl NotImplementedError)"

section \<open>Maps and the store\<close>

text \<open>
  Modelled from the spec: the Map class of \<^verbatim>\<open>gammapy.maps\<close> is not under src/. A map
  has a geometry with named axes, each with a node type, a unit and its bin centers; a
  data array; and a unit.
\<close>

record MapAxis =
  ax_name :: string
  node_type :: string
  ax_unit :: aunit
  center :: "f64 list"

record MapGeom =
  axes :: "MapAxis list"

record MapObj =
  geom :: MapGeom
  data :: ref
  map_unit :: aunit

text \<open>
  The store: the Parameter objects, the arrays and the Map objects, each by address, and
  the next free address. An address below \<open>next_ref\<close> is in use.
\<close>

record state =
  params :: "ref \<Rightarrow> Parameter"
  arrays :: "ref \<Rightarrow> ndarray"
  maps :: "ref \<Rightarrow> MapObj"
  next_ref :: ref

text \<open>
  Modelled from the spec: axis lookup by name, of \<^verbatim>\<open>gammapy.maps\<close>. The first axis of
  that name; the lookup of an absent name raises.
\<close>

definition get_axis_by_name :: "MapGeom \<Rightarrow> string \<Rightarrow> error + MapAxis" where
  "get_axis_by_name g nm =
     (case find (\<lambda>ax. ax_name ax = nm) (axes g) of
        None \<Rightarrow> Inl LookupError
      | Some ax \<Rightarrow> Inr ax)"

text \<open>
  Modelled from the spec: name-indexed lookup in the parameter container, of
  \<^verbatim>\<open>utils.fitting\<close>. The first parameter whose current name is the one asked for.
\<close>

definition Parameters_getitem :: "state \<Rightarrow> Parameters \<Rightarrow> string \<Rightarrow> error + ref" where
  "Parameters_getitem st ps nm =
     (case find (\<lambda>r. name (params st r) = nm) (par_list ps) of
        None \<Rightarrow> Inl LookupError
      | Some r \<Rightarrow> Inr r)"

text \<open>A new Parameter object takes the next free address.\<close>

definition new_Parameter :: "state \<Rightarrow> Parameter \<Rightarrow> ref \<times> state" where
  "new_Parameter st p =
     (next_ref st,
      st\<lparr>params := (params st)(next_ref st := p), next_ref := Suc (next_ref st)\<rparr>)"

section \<open>Copy and addition of a background collection\<close>

text \<open>
  The method \<^verbatim>\<open>copy\<close> of a background collection is inherited from the base class of
  \<^verbatim>\<open>utils.fitting\<close>, which is not under src/. SkyDiffuseCube overrides it with a method
  documented as "A shallow copy"; the inherited one is the deep copy of the standard
  library: every object the collection reaches is copied once into a new object, and the
  copies refer to each other as the originals do. The copy of the object at the address
  \<open>a\<close> takes the free address \<open>next_ref st + a\<close>; the copies of objects the collection
  does not reach are referenced by nothing.
\<close>

definition copy_ref :: "state \<Rightarrow> ref \<Rightarrow> ref" where
  "copy_ref st a = next_ref st + a"

definition copy_Parameters :: "state \<Rightarrow> Parameters \<Rightarrow> Parameters" where
  "copy_Parameters st ps = ps\<lparr>par_list := map (copy_ref st) (par_list ps)\<rparr>"

definition copy_BackgroundModel :: "state \<Rightarrow> BackgroundModel \<Rightarrow> BackgroundModel" where
  "copy_BackgroundModel st m =
     \<lparr>bm_map = copy_ref st (bm_map m), bm_norm = copy_ref st (bm_norm m),
      bm_tilt = copy_ref st (bm_tilt m), bm_reference = copy_ref st (bm_reference m),
      bm_parameters = copy_Parameters st (bm_parameters m)\<rparr>"

definition copy_store :: "state \<Rightarrow> state" where
  "copy_store st =
     \<lparr>params = (\<lambda>a. if next_ref st \<le> a \<and> a < 2 * next_ref st
                     then params st (a - next_ref st) else params st a),
      arrays = (\<lambda>a. if next_ref st \<le> a \<and> a < 2 * next_ref st
                     then arrays st (a - next_ref st) else arrays st a),
      maps = (\<lambda>a. if next_ref st \<le> a \<and> a < 2 * next_ref st
                   then (maps st (a - next_ref st))
                          \<lparr>data := copy_ref st (data (maps st (a - next_ref st)))\<rparr>
                   else maps st a),
      next_ref = 2 * next_ref st\<rparr>"

definition Model_copy :: "state \<Rightarrow> BackgroundModels \<Rightarrow> BackgroundModels \<times> state" where
  "Model_copy st self =
     (\<lparr>models = map (copy_BackgroundModel st) (models self),
       bms_parameters = copy_Parameters st (bms_parameters self)\<rparr>,
      copy_store st)"

text \<open>
  \<^verbatim>\<open>BackgroundModels.__add__\<close> is \<^verbatim>\<open>model_ = self.copy(); model_ += model;
  return model_\<close>.
\<close>

definition BackgroundModels_add ::
  "state \<Rightarrow> BackgroundModels \<Rightarrow> pyobj \<Rightarrow> error + BackgroundModels \<times> state" where
  "BackgroundModels_add st self model =
     (let (model1, st1) = Model_copy st self
      in case BackgroundModels_iadd model1 model of
           Inl e \<Rightarrow> Inl e
         | Inr c \<Rightarrow> Inr (c, st1))"

text \<open>The member list of the collection it returns, or the exception.\<close>

definition bkg_result_members ::
  "error + BackgroundModels \<times> state \<Rightarrow> error + BackgroundModel list" where
  "bkg_result_members r = map_sum id (models \<circ> fst) r"

section \<open>Constructors of the map-based models\<close>

definition setdefault :: "kwargs \<Rightarrow> string \<Rightarrow> kwval \<Rightarrow> kwargs" where
  "setdefault d k v = (case d k of None \<Rightarrow> d(k \<mapsto> v) | Some _ \<Rightarrow> d)"

text \<open>
  \<^verbatim>\<open>SkyDiffuseCube.__init__(map, norm, meta, interp_kwargs)\<close>; \<open>None\<close> stands for an
  argument left at its default \<^verbatim>\<open>None\<close>. The check of the energy axis comes first;
  nothing is created when it fails.
\<close>

definition SkyDiffuseCube_init ::
  "state \<Rightarrow> ref \<Rightarrow> f64 \<Rightarrow> (string \<rightharpoonup> string) option \<Rightarrow> kwargs option
     \<Rightarrow> error + SkyDiffuseCube \<times> state" where
  "SkyDiffuseCube_init st mp norm_value meta ikw =
     (case get_axis_by_name (geom (maps st mp)) ''energy'' of
        Inl e \<Rightarrow> Inl e
      | Inr axis \<Rightarrow>
          if node_type axis \<noteq> ''center'' then Inl ValueError
          else
            let (r, st1) = new_Parameter st
                  \<lparr>name = ''norm'', value = norm_value, unit = dimensionless,
                   pmin = NaN, pmax = NaN, frozen = False\<rparr>;
                meta1 = (case meta of None \<Rightarrow> Map.empty | Some m \<Rightarrow> m);
                kw0 = (case ikw of None \<Rightarrow> Map.empty | Some k \<Rightarrow> k);
                kw1 = setdefault kw0 ''interp'' (KStr ''linear'');
                kw2 = setdefault kw1 ''fill_value'' (KNum (Num 0))
            in Inr (\<lparr>sdc_map = mp, sdc_norm = r, sdc_meta = meta1, interp_kwargs = kw2,
                     sdc_parameters = Parameters_init [r]\<rparr>, st1))"

text \<open>
  \<^verbatim>\<open>BackgroundModel.__init__(background, norm, tilt, reference)\<close>; the reference is a
  scalar quantity, a value with its unit.
\<close>

definition BackgroundModel_init ::
  "state \<Rightarrow> ref \<Rightarrow> f64 \<Rightarrow> f64 \<Rightarrow> f64 \<times> aunit \<Rightarrow> error + BackgroundModel \<times> state" where
  "BackgroundModel_init st background norm_value tilt reference =
     (case get_axis_by_name (geom (maps st background)) ''energy'' of
        Inl e \<Rightarrow> Inl e
      | Inr axis \<Rightarrow>
          if node_type axis \<noteq> ''edges'' then Inl ValueError
          else
            let (rn, st1) = new_Parameter st
                  \<lparr>name = ''norm'', value = norm_value, unit = dimensionless,
                   pmin = Num 0, pmax = NaN, frozen = False\<rparr>;
                (rt, st2) = new_Parameter st1
                  \<lparr>name = ''tilt'', value = tilt, unit = dimensionless,
                   pmin = NaN, pmax = NaN, frozen = True\<rparr>;
                (rr, st3) = new_Parameter st2
                  \<lparr>name = ''reference'', value = fst reference, unit = snd reference,
                   pmin = NaN, pmax = NaN, frozen = True\<rparr>
            in Inr (\<lparr>bm_map = background, bm_norm = rn, bm_tilt = rt, bm_reference = rr,
                     bm_parameters = Parameters_init [rn, rt, rr]\<rparr>, st3))"

section \<open>Quantities\<close>

definition array_scale :: "real \<Rightarrow> ndarray \<Rightarrow> ndarray" where
  "array_scale k a = a\<lparr>flat := map (\<lambda>x. fmul x (Num k)) (flat a)\<rparr>"

definition quantity_mul :: "quantity \<Rightarrow> quantity \<Rightarrow> error + quantity" where
  "quantity_mul p q =
     (case np_binop fmul (qvalue p) (qvalue q) of
        Inl e \<Rightarrow> Inl e
      | Inr v \<Rightarrow> Inr \<lparr>qvalue = v, qunit = unit_mul (qunit p) (qunit q)\<rparr>)"

definition quantity_div :: "quantity \<Rightarrow> quantity \<Rightarrow> error + quantity" where
  "quantity_div p q =
     (case np_binop fdiv (qvalue p) (qvalue q) of
        Inl e \<Rightarrow> Inl e
      | Inr v \<Rightarrow> Inr \<lparr>qvalue = v, qunit = unit_div (qunit p) (qunit q)\<rparr>)"

text \<open>\<^verbatim>\<open>q.to(u)\<close> and \<^verbatim>\<open>q.to_value(u)\<close>.\<close>

definition quantity_to :: "quantity \<Rightarrow> aunit \<Rightarrow> error + quantity" where
  "quantity_to q u =
     (case unit_to (qunit q) u of
        Inl e \<Rightarrow> Inl e
      | Inr k \<Rightarrow> Inr \<lparr>qvalue = array_scale k (qvalue q), qunit = u\<rparr>)"

definition to_value :: "quantity \<Rightarrow> aunit \<Rightarrow> error + ndarray" where
  "to_value q u = map_sum id qvalue (quantity_to q u)"

text \<open>
  \<^verbatim>\<open>out += q\<close> on quantities: \<open>q\<close> is converted to the unit of \<open>out\<close>, and the sum
  must have the shape of \<open>out\<close>.
\<close>

definition quantity_iadd :: "quantity \<Rightarrow> quantity \<Rightarrow> error + quantity" where
  "quantity_iadd out q =
     (case unit_to (qunit q) (qunit out) of
        Inl e \<Rightarrow> Inl e
      | Inr k \<Rightarrow>
          (case np_binop fadd (qvalue out) (array_scale k (qvalue q)) of
             Inl e \<Rightarrow> Inl e
           | Inr v \<Rightarrow>
               if shape v = shape (qvalue out) then Inr (out\<lparr>qvalue := v\<rparr>)
               else Inl ValueError))"

text \<open>The degree, with the radian as the unit of the first base dimension.\<close>

definition deg :: aunit where
  "deg = Unit (pi / 180) [1]"

section \<open>Evaluation of the sky models\<close>

text \<open>\<^verbatim>\<open>SkyModel.evaluate\<close>: the spatial call, the spectral call, their product.\<close>

definition SkyModel_evaluate ::
  "state \<Rightarrow> SkyModel \<Rightarrow> quantity \<Rightarrow> quantity \<Rightarrow> quantity \<Rightarrow> error + quantity" where
  "SkyModel_evaluate st self lon lat energy =
     (case spatial_call (spatial_model self) (params st) lon lat of
        Inl e \<Rightarrow> Inl e
      | Inr val_spatial \<Rightarrow>
          (case spectral_call (spectral_model self) (params st) energy of
             Inl e \<Rightarrow> Inl e
           | Inr val_spectral \<Rightarrow> quantity_mul val_spatial val_spectral))"

record coord =
  c_lon :: ndarray
  c_lat :: ndarray
  c_energy :: quantity

text \<open>
  What lies inside a map's geometry and how a value is interpolated there belongs to the
  internals of \<^verbatim>\<open>gammapy.maps\<close>; both are parameters. A query point is a longitude
  and a latitude in degrees and an energy with its unit.
\<close>

type_synonym point = "f64 \<times> f64 \<times> f64 \<times> aunit"

record map_internals =
  inside :: "MapGeom \<Rightarrow> point \<Rightarrow> bool"
  interpolate :: "string \<Rightarrow> MapGeom \<Rightarrow> ndarray \<Rightarrow> point \<Rightarrow> f64"

text \<open>
  Modelled from the spec: \<^verbatim>\<open>Map.interp_by_coord(coord, interp, fill_value)\<close> is not
  under src/. The coordinates are broadcast against each other; a point inside the map's
  domain gets the value interpolated in the given mode, a point outside gets the fill
  value; no query point raises.
\<close>

definition Map_interp_by_coord ::
  "map_internals \<Rightarrow> state \<Rightarrow> MapObj \<Rightarrow> coord \<Rightarrow> string \<Rightarrow> f64 \<Rightarrow> error + ndarray" where
  "Map_interp_by_coord mi st m c interp fill_value =
     (case broadcast_shapes (shape (c_lon c)) (shape (c_lat c)) of
        None \<Rightarrow> Inl ValueError
      | Some s1 \<Rightarrow>
          (case broadcast_shapes s1 (shape (qvalue (c_energy c))) of
             None \<Rightarrow> Inl ValueError
           | Some s \<Rightarrow>
               Inr \<lparr>shape = s,
                    flat = map (\<lambda>k.
                      let idx = unravel s k;
                          pt = (bitem (c_lon c) idx, bitem (c_lat c) idx,
                                bitem (qvalue (c_energy c)) idx, qunit (c_energy c))
                      in if inside mi (geom m) pt
                         then interpolate mi interp (geom m) (arrays st (data m)) pt
                         else fill_value) [0..<prod_list s]\<rparr>))"

text \<open>
  The call \<^verbatim>\<open>interp_by_coord(coord, **kwargs)\<close>: the dictionary supplies the mode name
  and the numeric fill value of the contract.
\<close>

definition interp_by_coord_kwargs ::
  "map_internals \<Rightarrow> state \<Rightarrow> MapObj \<Rightarrow> coord \<Rightarrow> kwargs \<Rightarrow> error + ndarray" where
  "interp_by_coord_kwargs mi st m c kw =
     (case (kw ''interp'', kw ''fill_value'') of
        (Some (KStr interp), Some (KNum fill_value)) \<Rightarrow>
          Map_interp_by_coord mi st m c interp fill_value
      | _ \<Rightarrow> Inl TypeError)"

definition SkyDiffuseCube_evaluate ::
  "map_internals \<Rightarrow> state \<Rightarrow> SkyDiffuseCube \<Rightarrow> quantity \<Rightarrow> quantity \<Rightarrow> quantity
     \<Rightarrow> error + quantity" where
  "SkyDiffuseCube_evaluate mi st self lon lat energy =
     (case to_value lon deg of
        Inl e \<Rightarrow> Inl e
      | Inr lon_deg \<Rightarrow>
     (case to_value lat deg of
        Inl e \<Rightarrow> Inl e
      | Inr lat_deg \<Rightarrow>
     (case interp_by_coord_kwargs mi st (maps st (sdc_map self))
             \<lparr>c_lon = lon_deg, c_lat = lat_deg, c_energy = energy\<rparr> (interp_kwargs self) of
        Inl e \<Rightarrow> Inl e
      | Inr val \<Rightarrow>
     (case Parameters_getitem st (sdc_parameters self) ''norm'' of
        Inl e \<Rightarrow> Inl e
      | Inr r \<Rightarrow>
     (case np_binop fmul (scalar (value (params st r))) val of
        Inl e \<Rightarrow> Inl e
      | Inr v \<Rightarrow> Inr \<lparr>qvalue = v, qunit = map_unit (maps st (sdc_map self))\<rparr>)))))"

fun leaf_evaluate ::
  "map_internals \<Rightarrow> state \<Rightarrow> sky_leaf \<Rightarrow> quantity \<Rightarrow> quantity \<Rightarrow> quantity \<Rightarrow> error + quantity" where
  "leaf_evaluate mi st (Leaf_SkyModel m) lon lat energy = SkyModel_evaluate st m lon lat energy"
| "leaf_evaluate mi st (Leaf_SkyDiffuseCube m) lon lat energy =
     SkyDiffuseCube_evaluate mi st m lon lat energy"

text \<open>The loop \<^verbatim>\<open>for skymodel in self.skymodels[1:]: out += skymodel.evaluate(...)\<close>.\<close>

fun sky_accumulate ::
  "map_internals \<Rightarrow> state \<Rightarrow> quantity \<Rightarrow> sky_leaf list \<Rightarrow> quantity \<Rightarrow> quantity \<Rightarrow> quantity
     \<Rightarrow> error + quantity" where
  "sky_accumulate mi st out [] lon lat energy = Inr out"
| "sky_accumulate mi st out (m # ms) lon lat energy =
     (case leaf_evaluate mi st m lon lat energy of
        Inl e \<Rightarrow> Inl e
      | Inr v \<Rightarrow>
          (case quantity_iadd out v of
             Inl e \<Rightarrow> Inl e
           | Inr out1 \<Rightarrow> sky_accumulate mi st out1 ms lon lat energy))"

text \<open>
  \<^verbatim>\<open>SkyModels.evaluate\<close> starts from \<^verbatim>\<open>self.skymodels[0]\<close>: on an empty list the
  indexing raises IndexError.
\<close>

definition SkyModels_evaluate ::
  "map_internals \<Rightarrow> state \<Rightarrow> SkyModels \<Rightarrow> quantity \<Rightarrow> quantity \<Rightarrow> quantity
     \<Rightarrow> error + quantity" where
  "SkyModels_evaluate mi st self lon lat energy =
     (case skymodels self of
        [] \<Rightarrow> Inl IndexError
      | m # rest \<Rightarrow>
          (case leaf_evaluate mi st m lon lat energy of
             Inl e \<Rightarrow> Inl e
           | Inr out \<Rightarrow> sky_accumulate mi st out rest lon lat energy))"

section \<open>Evaluation of the background models\<close>

text \<open>A numpy operation leaves its result in a new array.\<close>

definition new_array :: "state \<Rightarrow> ndarray \<Rightarrow> ref \<times> state" where
  "new_array st a =
     (next_ref st,
      st\<lparr>arrays := (arrays st)(next_ref st := a), next_ref := Suc (next_ref st)\<rparr>)"

text \<open>
  Modelled from the spec: \<^verbatim>\<open>Map.copy(data=...)\<close> is not under src/. A new map object
  with the geometry and unit of the map at \<open>m\<close> and the given data array.
\<close>

definition Map_copy :: "state \<Rightarrow> ref \<Rightarrow> ref \<Rightarrow> ref \<times> state" where
  "Map_copy st m new_data =
     (next_ref st,
      st\<lparr>maps := (maps st)(next_ref st := (maps st m)\<lparr>data := new_data\<rparr>),
         next_ref := Suc (next_ref st)\<rparr>)"

text \<open>
  Modelled from the spec: \<^verbatim>\<open>+=\<close> on maps is not under src/. The data of the map at
  \<open>b\<close> is added, in place, into the data array of the map at \<open>a\<close>.
\<close>

definition Map_iadd :: "state \<Rightarrow> ref \<Rightarrow> ref \<Rightarrow> error + state" where
  "Map_iadd st a b =
     (case np_binop fadd (arrays st (data (maps st a))) (arrays st (data (maps st b))) of
        Inl e \<Rightarrow> Inl e
      | Inr v \<Rightarrow>
          if shape v = shape (arrays st (data (maps st a)))
          then Inr (st\<lparr>arrays := (arrays st)(data (maps st a) := v)\<rparr>)
          else Inl ValueError)"

text \<open>
  The property \<^verbatim>\<open>energy_center\<close>: the bin centers of the energy axis as a quantity,
  with two axes of size 1 appended.
\<close>

definition energy_center :: "state \<Rightarrow> BackgroundModel \<Rightarrow> error + quantity" where
  "energy_center st self =
     (case get_axis_by_name (geom (maps st (bm_map self))) ''energy'' of
        Inl e \<Rightarrow> Inl e
      | Inr energy_axis \<Rightarrow>
          Inr \<lparr>qvalue = \<lparr>shape = [length (center energy_axis), 1, 1],
                          flat = center energy_axis\<rparr>,
               qunit = ax_unit energy_axis\<rparr>)"

text \<open>The property \<^verbatim>\<open>quantity\<close> of a parameter: its value times its unit.\<close>

definition par_quantity :: "Parameter \<Rightarrow> quantity" where
  "par_quantity p = \<lparr>qvalue = scalar (value p), qunit = unit p\<rparr>"

definition BackgroundModel_evaluate :: "state \<Rightarrow> BackgroundModel \<Rightarrow> error + ref \<times> state" where
  "BackgroundModel_evaluate st self =
     (case Parameters_getitem st (bm_parameters self) ''norm'' of
        Inl e \<Rightarrow> Inl e
      | Inr rn \<Rightarrow>
     (case Parameters_getitem st (bm_parameters self) ''tilt'' of
        Inl e \<Rightarrow> Inl e
      | Inr rt \<Rightarrow>
     (case Parameters_getitem st (bm_parameters self) ''reference'' of
        Inl e \<Rightarrow> Inl e
      | Inr rr \<Rightarrow>
     (case energy_center st self of
        Inl e \<Rightarrow> Inl e
      | Inr ec \<Rightarrow>
     (case quantity_div ec (par_quantity (params st rr)) of
        Inl e \<Rightarrow> Inl e
      | Inr ratio \<Rightarrow>
     (case quantity_to ratio dimensionless of
        Inl e \<Rightarrow> Inl e
      | Inr ratio1 \<Rightarrow>
     (case np_binop fpow (qvalue ratio1) (scalar (fneg (value (params st rt)))) of
        Inl e \<Rightarrow> Inl e
      | Inr tilt_factor \<Rightarrow>
     (case np_binop fmul (scalar (value (params st rn)))
             (arrays st (data (maps st (bm_map self)))) of
        Inl e \<Rightarrow> Inl e
      | Inr scaled \<Rightarrow>
     (case np_binop fmul scaled tilt_factor of
        Inl e \<Rightarrow> Inl e
      | Inr back_values \<Rightarrow>
          let (a, st1) = new_array st back_values
          in Inr (Map_copy st1 (bm_map self) a))))))))))"

text \<open>The later iterations of the loop of \<^verbatim>\<open>BackgroundModels.evaluate\<close>.\<close>

fun bkg_accumulate :: "state \<Rightarrow> ref \<Rightarrow> BackgroundModel list \<Rightarrow> error + ref \<times> state" where
  "bkg_accumulate st vals [] = Inr (vals, st)"
| "bkg_accumulate st vals (m # ms) =
     (case BackgroundModel_evaluate st m of
        Inl e \<Rightarrow> Inl e
      | Inr (r, st1) \<Rightarrow>
          (case Map_iadd st1 vals r of
             Inl e \<Rightarrow> Inl e
           | Inr st2 \<Rightarrow> bkg_accumulate st2 vals ms))"

text \<open>
  \<^verbatim>\<open>BackgroundModels.evaluate\<close> assigns \<^verbatim>\<open>vals\<close> in the first iteration only: on an
  empty list \<^verbatim>\<open>return vals\<close> reads an unbound local variable.
\<close>

definition BackgroundModels_evaluate :: "state \<Rightarrow> BackgroundModels \<Rightarrow> error + ref \<times> state" where
  "BackgroundModels_evaluate st self =
     (case models self of
        [] \<Rightarrow> Inl UnboundLocalError
      | m # ms \<Rightarrow>
          (case BackgroundModel_evaluate st m of
             Inl e \<Rightarrow> Inl e
           | Inr (vals, st1) \<Rightarrow> bkg_accumulate st1 vals ms))"

text \<open>
  What \<^verbatim>\<open>BackgroundModel.__init__\<close> establishes and a change of parameter values
  keeps: the container holds the norm, the tilt and the reference, under these names.
\<close>

definition BackgroundModel_ok :: "state \<Rightarrow> BackgroundModel \<Rightarrow> bool" where
  "BackgroundModel_ok st self =
     (par_list (bm_parameters self) = [bm_norm self, bm_tilt self, bm_reference self]
      \<and> name (params st (bm_norm self)) = ''norm''
      \<and> name (params st (bm_tilt self)) = ''tilt''
      \<and> name (params st (bm_reference self)) = ''reference'')"

text \<open>
  One element of \<^verbatim>\<open>np.power((energy_center / reference).to(""), -tilt)\<close>: for the bin
  center \<open>c\<close>, the reference value \<open>r\<close>, the factor \<open>k\<close> that makes the quotient of the
  two units dimensionless, and the tilt \<open>t\<close>.
\<close>

definition tilt_factor :: "f64 \<Rightarrow> f64 \<Rightarrow> real \<Rightarrow> f64 \<Rightarrow> f64" where
  "tilt_factor c r k t = fpow (fmul (fdiv c r) (Num k)) (fneg t)"

text \<open>
  What \<^verbatim>\<open>SkyDiffuseCube.__init__\<close> establishes and a change of parameter values
  keeps: the container holds the norm, under this name.
\<close>

definition SkyDiffuseCube_ok :: "state \<Rightarrow> SkyDiffuseCube \<Rightarrow> bool" where
  "SkyDiffuseCube_ok st self =
     (par_list (sdc_parameters self) = [sdc_norm self]
      \<and> name (params st (sdc_norm self)) = ''norm'')"

text \<open>
  The query point at the index \<open>idx\<close> of the broadcast coordinates: longitude and
  latitude in degrees, the energy and its unit.
\<close>

definition query_point :: "coord \<Rightarrow> nat list \<Rightarrow> point" where
  "query_point c idx =
     (bitem (c_lon c) idx, bitem (c_lat c) idx, bitem (qvalue (c_energy c)) idx,
      qunit (c_energy c))"

text \<open>A leaf as an operand.\<close>

fun leaf_obj :: "sky_leaf \<Rightarrow> pyobj" where
  "leaf_obj (Leaf_SkyModel m) = PSkyModel m"
| "leaf_obj (Leaf_SkyDiffuseCube m) = PSkyDiffuseCube m"

text \<open>The member list of a returned sky collection, or the exception.\<close>

definition sky_members :: "error + SkyModels \<Rightarrow> error + sky_leaf list" where
  "sky_members r = map_sum id skymodels r"

definition bkg_members :: "error + BackgroundModels \<Rightarrow> error + BackgroundModel list" where
  "bkg_members r = map_sum id models r"

section \<open>Example objects\<close>

text \<open>
  Two template cube models and two background models, on maps at the addresses 0, 2, 4
  and 8, with their parameters at the addresses that follow each map.
\<close>

definition cube_A :: SkyDiffuseCube where
  "cube_A = \<lparr>sdc_map = 0, sdc_norm = 1, sdc_meta = Map.empty,
     interp_kwargs = [''interp'' \<mapsto> KStr ''linear'', ''fill_value'' \<mapsto> KNum (Num 0)],
     sdc_parameters = Parameters_init [1]\<rparr>"

definition cube_B :: SkyDiffuseCube where
  "cube_B = \<lparr>sdc_map = 2, sdc_norm = 3, sdc_meta = Map.empty,
     interp_kwargs = [''interp'' \<mapsto> KStr ''linear'', ''fill_value'' \<mapsto> KNum (Num 0)],
     sdc_parameters = Parameters_init [3]\<rparr>"

definition bkg_A :: BackgroundModel where
  "bkg_A = \<lparr>bm_map = 4, bm_norm = 5, bm_tilt = 6, bm_reference = 7,
     bm_parameters = Parameters_init [5, 6, 7]\<rparr>"

definition bkg_B :: BackgroundModel where
  "bkg_B = \<lparr>bm_map = 8, bm_norm = 9, bm_tilt = 10, bm_reference = 11,
     bm_parameters = Parameters_init [9, 10, 11]\<rparr>"

definition TeV :: aunit where
  "TeV = Unit 1 [0, 1]"

definition energy_axis_center :: MapAxis where
  "energy_axis_center =
     \<lparr>ax_name = ''energy'', node_type = ''center'', ax_unit = TeV, center = [Num 1, Num 10]\<rparr>"

definition energy_axis_edges :: MapAxis where
  "energy_axis_edges =
     \<lparr>ax_name = ''energy'', node_type = ''edges'', ax_unit = TeV, center = [Num 1, Num 10]\<rparr>"

text \<open>
  A store for them: the maps of the cubes have bin-center energy axes and their data at
  address 12, the maps of the background models have bin-edge energy axes and their data,
  of shape (2, 1, 2), at address 13; the norms are 2, the tilts 0, the references 1 TeV.
\<close>

definition example_state :: state where
  "example_state =
     \<lparr>params = (\<lambda>r.
        if r = 6 \<or> r = 10 then
          \<lparr>name = ''tilt'', value = Num 0, unit = dimensionless,
           pmin = NaN, pmax = NaN, frozen = True\<rparr>
        else if r = 7 \<or> r = 11 then
          \<lparr>name = ''reference'', value = Num 1, unit = TeV,
           pmin = NaN, pmax = NaN, frozen = True\<rparr>
        else
          \<lparr>name = ''norm'', value = Num 2, unit = dimensionless,
           pmin = NaN, pmax = NaN, frozen = False\<rparr>),
      arrays = (\<lambda>r. \<lparr>shape = [2, 1, 2], flat = [Num 1, Num 2, Num 3, Num 4]\<rparr>),
      maps = (\<lambda>r.
        if r = 4 \<or> r = 8 then
          \<lparr>geom = \<lparr>axes = [energy_axis_edges]\<rparr>, data = 13, map_unit = dimensionless\<rparr>
        else
          \<lparr>geom = \<lparr>axes = [energy_axis_center]\<rparr>, data = 12, map_unit = Unit 1 [0, -1]\<rparr>),
      next_ref = 14\<rparr>"

text \<open>
  A factorised model whose spatial part is the uniform density 3 at every position and
  whose spectral part is the flat flux 5 at every energy; two longitudes, and three
  energies as a column and as a row.
\<close>

definition uniform_spatial :: SkySpatialModel where
  "uniform_spatial =
     \<lparr>spatial_parameters = Parameters_init [],
      spatial_call = (\<lambda>ps lon lat.
        Inr \<lparr>qvalue = \<lparr>shape = shape (qvalue lon),
                         flat = map (\<lambda>x. Num 3) (flat (qvalue lon))\<rparr>,
             qunit = Unit 1 [-2]\<rparr>)\<rparr>"

definition flat_spectral :: SpectralModel where
  "flat_spectral =
     \<lparr>spectral_parameters = Parameters_init [],
      spectral_call = (\<lambda>ps energy.
        Inr \<lparr>qvalue = \<lparr>shape = shape (qvalue energy),
                         flat = map (\<lambda>x. Num 5) (flat (qvalue energy))\<rparr>,
             qunit = Unit 1 [0, -1]\<rparr>)\<rparr>"

definition two_lons :: quantity where
  "two_lons = \<lparr>qvalue = \<lparr>shape = [2], flat = [Num 0, Num 1]\<rparr>, qunit = deg\<rparr>"

definition energy_column :: quantity where
  "energy_column =
     \<lparr>qvalue = \<lparr>shape = [3, 1], flat = [Num 1, Num 10, Num 100]\<rparr>, qunit = TeV\<rparr>"

definition energy_row :: quantity where
  "energy_row =
     \<lparr>qvalue = \<lparr>shape = [3], flat = [Num 1, Num 10, Num 100]\<rparr>, qunit = TeV\<rparr>"

text \<open>
  Map internals for the examples: a point is inside the map when its longitude is 0, and
  the value interpolated there is 7.
\<close>

definition example_internals :: map_internals where
  "example_internals =
     \<lparr>inside = (\<lambda>g pt. fst pt = Num 0), interpolate = (\<lambda>mode g d pt. Num 7)\<rparr>"

text \<open>The same store with the tilts of the background models at -1.\<close>

definition tilted_state :: state where
  "tilted_state =
     example_state\<lparr>params := (params example_state)
       (6 := \<lparr>name = ''tilt'', value = Num (- 1), unit = dimensionless,
              pmin = NaN, pmax = NaN, frozen = True\<rparr>)\<rparr>"

text \<open>A factorised model whose spatial part raises IndexError when it is called.\<close>

definition raising_spatial :: SkySpatialModel where
  "raising_spatial =
     \<lparr>spatial_parameters = Parameters_init [],
      spatial_call = (\<lambda>ps lon lat. Inl IndexError)\<rparr>"

section \<open>Aggregation lemmas\<close>

lemma append_each_eq: "append_each acc ps = acc @ ps"
  by (induction ps arbitrary: acc) simp_all

lemma aggregate_eq: "aggregate pars acc ms = acc @ concat (map (\<lambda>m. par_list (pars m)) ms)"
  by (induction ms arbitrary: acc) (simp_all add: append_each_eq)

lemma skymodels_init [simp]: "skymodels (SkyModels_init ms) = ms"
  by (simp add: SkyModels_init_def)

lemma models_init [simp]: "models (BackgroundModels_init ms) = ms"
  by (simp add: BackgroundModels_init_def)

lemma SkyModels_init_parameters:
  "par_list (sms_parameters (SkyModels_init ms)) =
     concat (map (\<lambda>m. par_list (leaf_parameters m)) ms)"
  by (simp add: SkyModels_init_def Parameters_init_def aggregate_eq)

lemma BackgroundModels_init_parameters:
  "par_list (bms_parameters (BackgroundModels_init ms)) =
     concat (map (\<lambda>m. par_list (bm_parameters m)) ms)"
  by (simp add: BackgroundModels_init_def Parameters_init_def aggregate_eq)

section \<open>The combination algebra\<close>

lemma leaf_add_leaf:
  "sky_members (SkyModelBase_add a (leaf_obj b)) = Inr [a, b]"
  by (cases b) (simp_all add: sky_members_def SkyModelBase_add_def)

lemma leaf_add_collection:
  "sky_members (SkyModelBase_add a (PSkyModels c)) = Inr (a # skymodels c)"
  by (simp add: sky_members_def SkyModelBase_add_def)

lemma collection_add_leaf:
  "sky_members (SkyModels_add c (leaf_obj b)) = Inr (skymodels c @ [b])"
  by (cases b) (simp_all add: sky_members_def SkyModels_add_def)

lemma collection_add_collection:
  "sky_members (SkyModels_add c (PSkyModels d)) = Inr (skymodels c @ skymodels d)"
  by (simp add: sky_members_def SkyModels_add_def)

lemma bkg_add_bkg:
  "bkg_members (BackgroundModel_add a (PBackgroundModel b)) = Inr [a, b]"
  by (simp add: bkg_members_def BackgroundModel_add_def)

lemma bkg_add_collection:
  "bkg_members (BackgroundModel_add a (PBackgroundModels c)) = Inr (a # models c)"
  by (simp add: bkg_members_def BackgroundModel_add_def)

lemma bkg_collection_add:
  "bkg_result_members (BackgroundModels_add st c (PBackgroundModel b))
     = Inr (map (copy_BackgroundModel st) (models c) @ [b])"
  "bkg_result_members (BackgroundModels_add st c (PBackgroundModels d))
     = Inr (map (copy_BackgroundModel st) (models c) @ models d)"
  by (simp_all add: bkg_result_members_def BackgroundModels_add_def BackgroundModels_iadd_def
      Model_copy_def)

lemma copy_store_contents:
  assumes "a < next_ref st"
  shows "next_ref st \<le> copy_ref st a"
    and "params (copy_store st) (copy_ref st a) = params st a"
    and "arrays (copy_store st) (copy_ref st a) = arrays st a"
    and "maps (copy_store st) (copy_ref st a)
           = (maps st a)\<lparr>data := copy_ref st (data (maps st a))\<rparr>"
    and "params (copy_store st) a = params st a"
    and "arrays (copy_store st) a = arrays st a"
    and "maps (copy_store st) a = maps st a"
  using assms by (simp_all add: copy_store_def copy_ref_def)

lemma copy_BackgroundModel_new:
  assumes "bm_map m < next_ref st"
  shows "copy_BackgroundModel st m \<noteq> m"
proof
  assume "copy_BackgroundModel st m = m"
  then have "bm_map (copy_BackgroundModel st m) = bm_map m" by simp
  then show False using assms by (simp add: copy_BackgroundModel_def copy_ref_def)
qed

text \<open>
  The member lists of all sums. Adding two leaves of one family gives a collection whose
  members are \<open>[left, right]\<close>; a leaf plus a collection gives the leaf followed by the
  collection's members; a sky collection plus a leaf or a collection gives the left
  members followed by the right ones. A background collection on the left is first
  copied: the sum holds the copies of the left members, in order, followed by the right
  members themselves. Each copy is a new object at new addresses, with the contents of
  the original, and the originals stay as they were.
\<close>

lemma member_lists_of_sums:
  "sky_members (SkyModelBase_add a (leaf_obj b)) = Inr [a, b]
   \<and> bkg_members (BackgroundModel_add p (PBackgroundModel q)) = Inr [p, q]
   \<and> sky_members (SkyModelBase_add a (PSkyModels c)) = Inr (a # skymodels c)
   \<and> bkg_members (BackgroundModel_add p (PBackgroundModels r)) = Inr (p # models r)
   \<and> sky_members (SkyModels_add c (leaf_obj b)) = Inr (skymodels c @ [b])
   \<and> sky_members (SkyModels_add c (PSkyModels d)) = Inr (skymodels c @ skymodels d)
   \<and> bkg_result_members (BackgroundModels_add st r (PBackgroundModel q))
       = Inr (map (copy_BackgroundModel st) (models r) @ [q])
   \<and> bkg_result_members (BackgroundModels_add st r (PBackgroundModels r'))
       = Inr (map (copy_BackgroundModel st) (models r) @ models r')
   \<and> (\<forall>m \<in> set (models r). bm_map m < next_ref st \<longrightarrow> copy_BackgroundModel st m \<noteq> m)
   \<and> (\<forall>x < next_ref st.
        next_ref st \<le> copy_ref st x
      \<and> params (copy_store st) (copy_ref st x) = params st x
      \<and> arrays (copy_store st) (copy_ref st x) = arrays st x
      \<and> maps (copy_store st) (copy_ref st x)
           = (maps st x)\<lparr>data := copy_ref st (data (maps st x))\<rparr>
      \<and> params (copy_store st) x = params st x
      \<and> arrays (copy_store st) x = arrays st x
      \<and> maps (copy_store st) x = maps st x)"
  by (simp add: leaf_add_leaf leaf_add_collection collection_add_leaf
      collection_add_collection bkg_add_bkg bkg_add_collection bkg_collection_add
      copy_store_contents copy_BackgroundModel_new)

text \<open>
  Claim C1. The background collection \<open>[bkg_A]\<close> plus \<open>bkg_B\<close> does not hold
  \<open>[bkg_A, bkg_B]\<close>: its first member is the copy of \<open>bkg_A\<close> at the addresses 18 to
  21, another object than \<open>bkg_A\<close> at 4 to 7, with the same parameter values. The
  sibling paths hold the operands themselves: the sky collection \<open>[cube_A]\<close> plus
  \<open>cube_B\<close> holds \<open>[cube_A, cube_B]\<close>, and \<open>bkg_A\<close> plus \<open>bkg_B\<close> holds
  \<open>[bkg_A, bkg_B]\<close>.
\<close>

theorem BackgroundModels_add_copies_members:
  "bkg_result_members
     (BackgroundModels_add example_state (BackgroundModels_init [bkg_A]) (PBackgroundModel bkg_B))
     = Inr [\<lparr>bm_map = 18, bm_norm = 19, bm_tilt = 20, bm_reference = 21,
             bm_parameters = Parameters_init [19, 20, 21]\<rparr>, bkg_B]
   \<and> bkg_result_members
     (BackgroundModels_add example_state (BackgroundModels_init [bkg_A]) (PBackgroundModel bkg_B))
     \<noteq> Inr [bkg_A, bkg_B]
   \<and> params (copy_store example_state) 19 = params example_state 5
   \<and> sky_members (SkyModels_add (SkyModels_init [Leaf_SkyDiffuseCube cube_A])
         (PSkyDiffuseCube cube_B))
     = Inr [Leaf_SkyDiffuseCube cube_A, Leaf_SkyDiffuseCube cube_B]
   \<and> bkg_members (BackgroundModel_add bkg_A (PBackgroundModel bkg_B)) = Inr [bkg_A, bkg_B]"
proof -
  have cp: "copy_BackgroundModel example_state bkg_A
      = \<lparr>bm_map = 18, bm_norm = 19, bm_tilt = 20, bm_reference = 21,
         bm_parameters = Parameters_init [19, 20, 21]\<rparr>"
    by (simp add: copy_BackgroundModel_def copy_Parameters_def copy_ref_def bkg_A_def
        example_state_def Parameters_init_def)
  have r: "bkg_result_members
     (BackgroundModels_add example_state (BackgroundModels_init [bkg_A]) (PBackgroundModel bkg_B))
     = Inr [\<lparr>bm_map = 18, bm_norm = 19, bm_tilt = 20, bm_reference = 21,
             bm_parameters = Parameters_init [19, 20, 21]\<rparr>, bkg_B]"
    by (simp add: bkg_collection_add cp)
  have n: "bkg_result_members
     (BackgroundModels_add example_state (BackgroundModels_init [bkg_A]) (PBackgroundModel bkg_B))
     \<noteq> Inr [bkg_A, bkg_B]"
    by (simp add: r) (simp add: bkg_A_def)
  have p: "params (copy_store example_state) 19 = params example_state 5"
    by (simp add: copy_store_def example_state_def)
  have s: "sky_members (SkyModels_add (SkyModels_init [Leaf_SkyDiffuseCube cube_A])
         (PSkyDiffuseCube cube_B))
     = Inr [Leaf_SkyDiffuseCube cube_A, Leaf_SkyDiffuseCube cube_B]"
    using collection_add_leaf [of "SkyModels_init [Leaf_SkyDiffuseCube cube_A]"
        "Leaf_SkyDiffuseCube cube_B"] by simp
  have l: "bkg_members (BackgroundModel_add bkg_A (PBackgroundModel bkg_B)) = Inr [bkg_A, bkg_B]"
    by (rule bkg_add_bkg)
  show ?thesis by (intro conjI) (rule r n p s l)+
qed

text \<open>
  Claim C2. The parameter list of a collection built from the members \<open>ms\<close> is the
  concatenation of the members' own parameter lists in member order, and the parameter
  list of a SkyModel is the spatial parameters followed by the spectral parameters; the
  entries are the children's references themselves, none renamed, none dropped.
\<close>

theorem aggregated_parameters_concat:
  "par_list (sms_parameters (SkyModels_init ms)) =
     concat (map (\<lambda>m. par_list (leaf_parameters m)) ms)
   \<and> par_list (bms_parameters (BackgroundModels_init bs)) =
     concat (map (\<lambda>m. par_list (bm_parameters m)) bs)
   \<and> par_list (sm_parameters (SkyModel_init spatial spectral nm)) =
     par_list (spatial_parameters spatial) @ par_list (spectral_parameters spectral)"
  by (simp add: SkyModels_init_parameters BackgroundModels_init_parameters
      SkyModel_init_def Parameters_init_def)

text \<open>
  Claim C3. After \<^verbatim>\<open>c += b\<close> on the collection \<open>[cube_A]\<close> the member list is
  \<open>[cube_A, cube_B]\<close> and the parameter list is still \<open>[1]\<close>, the one computed by the
  constructor: the norm of \<open>cube_B\<close>, at address 3, is missing from it, while the
  collection built by \<^verbatim>\<open>+\<close> from the same operands holds \<open>[1, 3]\<close>. The same happens
  to a background collection.
\<close>

theorem iadd_keeps_stale_parameters:
  "map_sum id (\<lambda>c. (skymodels c, par_list (sms_parameters c)))
     (SkyModels_iadd (SkyModels_init [Leaf_SkyDiffuseCube cube_A]) (PSkyDiffuseCube cube_B))
     = Inr ([Leaf_SkyDiffuseCube cube_A, Leaf_SkyDiffuseCube cube_B], [1])
   \<and> map_sum id (\<lambda>c. (skymodels c, par_list (sms_parameters c)))
     (SkyModels_add (SkyModels_init [Leaf_SkyDiffuseCube cube_A]) (PSkyDiffuseCube cube_B))
     = Inr ([Leaf_SkyDiffuseCube cube_A, Leaf_SkyDiffuseCube cube_B], [1, 3])
   \<and> map_sum id (\<lambda>c. (models c, par_list (bms_parameters c)))
     (BackgroundModels_iadd (BackgroundModels_init [bkg_A]) (PBackgroundModel bkg_B))
     = Inr ([bkg_A, bkg_B], [5, 6, 7])"
  by (simp add: SkyModels_iadd_def SkyModels_add_def BackgroundModels_iadd_def
      SkyModels_init_def BackgroundModels_init_def Parameters_init_def
      cube_A_def cube_B_def bkg_A_def bkg_B_def)

text \<open>
  Claim C5, as stated, at two template cube models: the reflected handler of \<open>cube_A\<close>,
  called with \<open>cube_B\<close> for the expression \<^verbatim>\<open>cube_B + cube_A\<close>, does not give the member
  list of that expression's forward form; the left operand \<open>cube_B\<close> comes last.
\<close>

theorem radd_order_counterexample:
  "sky_members (SkyModelBase_radd (Leaf_SkyDiffuseCube cube_A) (PSkyDiffuseCube cube_B))
     \<noteq> sky_members (SkyModelBase_add (Leaf_SkyDiffuseCube cube_B) (PSkyDiffuseCube cube_A))"
  by (simp add: sky_members_def SkyModelBase_radd_def SkyModelBase_add_def
      cube_A_def cube_B_def)

text \<open>
  Claim C5, amended. The reflected handler returns what the receiver's own forward
  addition returns on the same argument: the receiver's members come first, then the
  argument's. For the expression \<^verbatim>\<open>b + a\<close> that the handler of \<open>a\<close> serves, the members
  of the right operand \<open>a\<close> therefore precede those of the left operand \<open>b\<close>.
\<close>

theorem radd_is_receiver_add:
  "SkyModelBase_radd a x = SkyModelBase_add a x
   \<and> SkyModels_radd c x = SkyModels_add c x
   \<and> sky_members (SkyModelBase_radd a (leaf_obj b)) = Inr [a, b]
   \<and> sky_members (SkyModelBase_radd a (PSkyModels d)) = Inr (a # skymodels d)
   \<and> sky_members (SkyModels_radd c (leaf_obj b)) = Inr (skymodels c @ [b])
   \<and> sky_members (SkyModels_radd c (PSkyModels d)) = Inr (skymodels c @ skymodels d)"
  by (simp add: SkyModelBase_radd_def SkyModels_radd_def leaf_add_leaf leaf_add_collection
      collection_add_leaf collection_add_collection)

section \<open>Construction and empty collections\<close>

text \<open>
  Claim C6. A template cube model cannot be built on a map whose energy axis has node
  type \<open>edges\<close>, nor a background model on a map whose energy axis has node type
  \<open>center\<close>: the constructor raises ValueError, the code's signal for invalid axis
  semantics, and returns no object, so nothing is left to evaluate.
\<close>

theorem init_rejects_wrong_node_type:
  "(get_axis_by_name (geom (maps st mp)) ''energy'' = Inr ax \<and> node_type ax = ''edges''
      \<longrightarrow> SkyDiffuseCube_init st mp nv meta ikw = Inl ValueError)
   \<and> (get_axis_by_name (geom (maps st bg)) ''energy'' = Inr ax' \<and> node_type ax' = ''center''
      \<longrightarrow> BackgroundModel_init st bg nv tilt reference = Inl ValueError)"
  by (simp add: SkyDiffuseCube_init_def BackgroundModel_init_def)

theorem init_rejects_wrong_node_type_witness:
  "get_axis_by_name (geom (maps example_state 4)) ''energy'' = Inr energy_axis_edges
   \<and> node_type energy_axis_edges = ''edges''
   \<and> SkyDiffuseCube_init example_state 4 (Num 1) None None = Inl ValueError
   \<and> get_axis_by_name (geom (maps example_state 0)) ''energy'' = Inr energy_axis_center
   \<and> node_type energy_axis_center = ''center''
   \<and> BackgroundModel_init example_state 0 (Num 1) (Num 0) (Num 1, TeV) = Inl ValueError"
proof -
  have e: "get_axis_by_name (geom (maps example_state 4)) ''energy'' = Inr energy_axis_edges"
    by (simp add: get_axis_by_name_def example_state_def energy_axis_edges_def)
  have c: "get_axis_by_name (geom (maps example_state 0)) ''energy'' = Inr energy_axis_center"
    by (simp add: get_axis_by_name_def example_state_def energy_axis_center_def)
  have ne: "node_type energy_axis_edges = ''edges''"
    by (simp add: energy_axis_edges_def)
  have nc: "node_type energy_axis_center = ''center''"
    by (simp add: energy_axis_center_def)
  show ?thesis
    using init_rejects_wrong_node_type [of example_state 4 energy_axis_edges "Num 1" None None
        0 energy_axis_center "Num 0" "(Num 1, TeV)"] e c ne nc
    by simp
qed

text \<open>
  Claim C7, as stated, at the empty sky collection and the empty background collection:
  neither evaluation signals EmptyCollection. What the empty sky collection raises is the
  IndexError that a collection with one member raises when that member's spatial part
  raises it, so it does not tell the caller that the collection is empty.
\<close>

theorem empty_collection_counterexample:
  "SkyModels_evaluate example_internals example_state (SkyModels_init [])
       two_lons two_lons energy_column \<noteq> Inl EmptyCollection
   \<and> BackgroundModels_evaluate example_state (BackgroundModels_init []) \<noteq> Inl EmptyCollection
   \<and> SkyModels_evaluate example_internals example_state
        (SkyModels_init [Leaf_SkyModel (SkyModel_init raising_spatial flat_spectral ''SkyModel'')])
        two_lons two_lons energy_column
      = SkyModels_evaluate example_internals example_state (SkyModels_init [])
          two_lons two_lons energy_column"
  by (simp add: SkyModels_evaluate_def BackgroundModels_evaluate_def SkyModels_init_def
      BackgroundModels_init_def SkyModel_evaluate_def SkyModel_init_def raising_spatial_def)

text \<open>
  Claim C7, amended. Evaluating a collection with no members returns no value, neither
  zero nor any default: the sky collection fails with IndexError at
  \<^verbatim>\<open>self.skymodels[0]\<close>, the background collection with UnboundLocalError at
  \<^verbatim>\<open>return vals\<close>. Both are failures of the unguarded code, not a designed signal.
\<close>

theorem empty_collection_evaluate_raises:
  "SkyModels_evaluate mi st (c\<lparr>skymodels := []\<rparr>) lon lat energy = Inl IndexError
   \<and> BackgroundModels_evaluate st (b\<lparr>models := []\<rparr>) = Inl UnboundLocalError"
  by (simp add: SkyModels_evaluate_def BackgroundModels_evaluate_def)

section \<open>Indexing and broadcasting lemmas\<close>

lemma valid_index_Nil [simp]: "valid_index [] idx = (idx = [])"
  by (simp add: valid_index_def)

lemma valid_index_Cons:
  "valid_index (n # ns) idx = (\<exists>i is. idx = i # is \<and> i < n \<and> valid_index ns is)"
  by (cases idx) (auto simp: valid_index_def)

lemma valid_index_Cons2 [simp]:
  "valid_index (n # ns) (i # is) = (i < n \<and> valid_index ns is)"
  by (simp add: valid_index_def)

lemma offset_less: "valid_index s idx \<Longrightarrow> offset s idx < prod_list s"
proof (induction s arbitrary: idx)
  case Nil
  then show ?case by simp
next
  case (Cons n ns)
  then obtain i "is" where idx: "idx = i # is" and i: "i < n" and v: "valid_index ns is"
    by (auto simp: valid_index_Cons)
  have o: "offset ns is < prod_list ns" using Cons.IH v by simp
  have "i * prod_list ns + offset ns is < i * prod_list ns + prod_list ns" using o by simp
  also have "\<dots> = Suc i * prod_list ns" by simp
  also have "\<dots> \<le> n * prod_list ns" using i by (intro mult_le_mono1) simp
  finally show ?case by (simp add: idx)
qed

lemma unravel_offset: "valid_index s idx \<Longrightarrow> unravel s (offset s idx) = idx"
proof (induction s arbitrary: idx)
  case Nil
  then show ?case by simp
next
  case (Cons n ns)
  then obtain i "is" where idx: "idx = i # is" and i: "i < n" and v: "valid_index ns is"
    by (auto simp: valid_index_Cons)
  have o: "offset ns is < prod_list ns" using v by (rule offset_less)
  show ?case using Cons.IH [OF v] o by (simp add: idx)
qed

lemma unravel_valid: "k < prod_list s \<Longrightarrow> valid_index s (unravel s k) \<and> offset s (unravel s k) = k"
proof (induction s arbitrary: k)
  case Nil
  then show ?case by simp
next
  case (Cons n ns)
  have pos: "0 < prod_list ns" using Cons.prems by (cases "prod_list ns = 0") simp_all
  have d: "k div prod_list ns < n"
    using Cons.prems pos by (simp add: less_mult_imp_div_less mult.commute)
  have m: "k mod prod_list ns < prod_list ns" using pos by simp
  show ?case using Cons.IH [OF m] d by simp
qed

lemma bindex_valid: "valid_index s idx \<Longrightarrow> bindex s idx = idx"
proof -
  assume v: "valid_index s idx"
  have l: "length idx = length s" using v by (simp add: valid_index_def list_all2_lengthD)
  have "map2 (\<lambda>n i. if n = 1 then 0 else i) s idx = idx" using v
  proof (induction s arbitrary: idx)
    case Nil then show ?case by simp
  next
    case (Cons n ns)
    then show ?case by (auto simp: valid_index_Cons)
  qed
  then show ?thesis by (simp add: bindex_def l)
qed

lemma np_binop_item:
  assumes "np_binop f a b = Inr r"
  shows "broadcast_shapes (shape a) (shape b) = Some (shape r)"
    and "wf_ndarray r"
    and "valid_index (shape r) idx \<Longrightarrow> item r idx = f (bitem a idx) (bitem b idx)"
proof -
  obtain s where s: "broadcast_shapes (shape a) (shape b) = Some s"
    and r: "r = \<lparr>shape = s, flat = map (\<lambda>k. f (bitem a (unravel s k)) (bitem b (unravel s k))) [0..<prod_list s]\<rparr>"
    using assms by (auto simp: np_binop_def split: option.splits)
  show "broadcast_shapes (shape a) (shape b) = Some (shape r)" by (simp add: s r)
  show "wf_ndarray r" by (simp add: r wf_ndarray_def)
  assume v: "valid_index (shape r) idx"
  then have v': "valid_index s idx" by (simp add: r)
  show "item r idx = f (bitem a idx) (bitem b idx)"
    using offset_less [OF v'] unravel_offset [OF v'] by (simp add: item_def r)
qed

lemma broadcast_scalar [simp]: "broadcast_shapes [] s = Some s" "broadcast_shapes s [] = Some s"
  by (simp_all add: broadcast_shapes_def) (cases "rev s"; simp)+

lemma bitem_scalar [simp]: "bitem (scalar x) idx = x"
  by (simp add: bitem_def item_def scalar_def bindex_def)

lemma bitem_unravel: "wf_ndarray a \<Longrightarrow> k < prod_list (shape a) \<Longrightarrow> bitem a (unravel (shape a) k) = flat a ! k"
  using unravel_valid [of k "shape a"] by (simp add: bitem_def item_def bindex_valid)

lemma map_nth_flat: "n = length xs \<Longrightarrow> map (\<lambda>k. g (xs ! k)) [0..<n] = map g xs"
  by (rule nth_equalityI) simp_all

lemma np_binop_scalar_left:
  "wf_ndarray a \<Longrightarrow> np_binop f (scalar x) a = Inr \<lparr>shape = shape a, flat = map (f x) (flat a)\<rparr>"
proof -
  assume w: "wf_ndarray a"
  have "map (\<lambda>k. f x (bitem a (unravel (shape a) k))) [0..<prod_list (shape a)]
      = map (\<lambda>k. f x (flat a ! k)) [0..<prod_list (shape a)]"
    using w by (simp add: bitem_unravel)
  also have "\<dots> = map (f x) (flat a)" using w by (simp add: map_nth_flat wf_ndarray_def)
  finally show ?thesis by (simp add: np_binop_def scalar_def [of x, THEN arg_cong [of _ _ shape]])
qed

lemma np_binop_scalar_right:
  "wf_ndarray a \<Longrightarrow> np_binop f a (scalar x) = Inr \<lparr>shape = shape a, flat = map (\<lambda>y. f y x) (flat a)\<rparr>"
proof -
  assume w: "wf_ndarray a"
  have "map (\<lambda>k. f (bitem a (unravel (shape a) k)) x) [0..<prod_list (shape a)]
      = map (\<lambda>k. f (flat a ! k) x) [0..<prod_list (shape a)]"
    using w by (simp add: bitem_unravel)
  also have "\<dots> = map (\<lambda>y. f y x) (flat a)"
    using w map_nth_flat [of "prod_list (shape a)" "flat a" "\<lambda>y. f y x"] by (simp add: wf_ndarray_def)
  finally show ?thesis by (simp add: np_binop_def scalar_def [of x, THEN arg_cong [of _ _ shape]])
qed

lemma fmul_one [simp]: "fmul x (Num 1) = x"
  by (cases x) simp_all

lemma fpow_zero [simp]: "fpow x (Num 0) = Num 1"
  by simp

section \<open>Evaluation of the factorised model\<close>

text \<open>
  Claim C8. When the spatial call returns \<open>a\<close> and the spectral call returns \<open>b\<close>,
  \<^verbatim>\<open>SkyModel.evaluate\<close> raises ValueError, numpy's signal for a shape mismatch, if the
  two shapes do not broadcast; otherwise it returns the quantity of the broadcast shape
  whose element at every index is the product of the elements \<open>a\<close> and \<open>b\<close> contribute
  there. The result depends on the store through the current parameter values only:
  nothing is kept from an earlier call.
\<close>

theorem SkyModel_evaluate_product:
  assumes sp: "spatial_call (spatial_model self) (params st) lon lat = Inr a"
      and se: "spectral_call (spectral_model self) (params st) energy = Inr b"
  shows "(broadcast_shapes (shape (qvalue a)) (shape (qvalue b)) = None
            \<longrightarrow> SkyModel_evaluate st self lon lat energy = Inl ValueError)
       \<and> (\<forall>s. broadcast_shapes (shape (qvalue a)) (shape (qvalue b)) = Some s
            \<longrightarrow> (\<exists>r. SkyModel_evaluate st self lon lat energy = Inr r
                  \<and> shape (qvalue r) = s
                  \<and> wf_ndarray (qvalue r)
                  \<and> qunit r = unit_mul (qunit a) (qunit b)
                  \<and> (\<forall>idx. valid_index s idx
                        \<longrightarrow> item (qvalue r) idx = fmul (bitem (qvalue a) idx) (bitem (qvalue b) idx))))
       \<and> (\<forall>st'. params st' = params st
            \<longrightarrow> SkyModel_evaluate st' self lon lat energy = SkyModel_evaluate st self lon lat energy)"
proof (intro conjI allI impI)
  assume "broadcast_shapes (shape (qvalue a)) (shape (qvalue b)) = None"
  then show "SkyModel_evaluate st self lon lat energy = Inl ValueError"
    by (simp add: SkyModel_evaluate_def sp se quantity_mul_def np_binop_def)
next
  fix s assume s: "broadcast_shapes (shape (qvalue a)) (shape (qvalue b)) = Some s"
  then obtain v where v: "np_binop fmul (qvalue a) (qvalue b) = Inr v"
    by (simp add: np_binop_def)
  have ev: "SkyModel_evaluate st self lon lat energy
      = Inr \<lparr>qvalue = v, qunit = unit_mul (qunit a) (qunit b)\<rparr>"
    by (simp add: SkyModel_evaluate_def sp se quantity_mul_def v)
  have sh: "shape v = s" using np_binop_item(1) [OF v] s by simp
  show "\<exists>r. SkyModel_evaluate st self lon lat energy = Inr r
          \<and> shape (qvalue r) = s \<and> wf_ndarray (qvalue r)
          \<and> qunit r = unit_mul (qunit a) (qunit b)
          \<and> (\<forall>idx. valid_index s idx
                \<longrightarrow> item (qvalue r) idx = fmul (bitem (qvalue a) idx) (bitem (qvalue b) idx))"
    using ev sh np_binop_item(2) [OF v] np_binop_item(3) [OF v] by simp
next
  fix st' :: state assume "params st' = params st"
  then show "SkyModel_evaluate st' self lon lat energy = SkyModel_evaluate st self lon lat energy"
    unfolding SkyModel_evaluate_def by (simp only:)
qed

theorem SkyModel_evaluate_product_witness:
  "spatial_call (spatial_model (SkyModel_init uniform_spatial flat_spectral ''SkyModel''))
       (params example_state) two_lons two_lons
     = Inr \<lparr>qvalue = \<lparr>shape = [2], flat = [Num 3, Num 3]\<rparr>, qunit = Unit 1 [-2]\<rparr>
   \<and> broadcast_shapes [2] [3, 1] = Some [3, 2]
   \<and> valid_index [3, 2] [2, 1]
   \<and> (\<exists>r. SkyModel_evaluate example_state
            (SkyModel_init uniform_spatial flat_spectral ''SkyModel'')
            two_lons two_lons energy_column = Inr r
          \<and> shape (qvalue r) = [3, 2] \<and> item (qvalue r) [2, 1] = Num 15)
   \<and> broadcast_shapes [2] [3] = None
   \<and> SkyModel_evaluate example_state
        (SkyModel_init uniform_spatial flat_spectral ''SkyModel'')
        two_lons two_lons energy_row = Inl ValueError
   \<and> params (example_state\<lparr>next_ref := 20\<rparr>) = params example_state
   \<and> SkyModel_evaluate (example_state\<lparr>next_ref := 20\<rparr>)
        (SkyModel_init uniform_spatial flat_spectral ''SkyModel'')
        two_lons two_lons energy_column
      = SkyModel_evaluate example_state
        (SkyModel_init uniform_spatial flat_spectral ''SkyModel'')
        two_lons two_lons energy_column"
proof -
  let ?m = "SkyModel_init uniform_spatial flat_spectral ''SkyModel''"
  let ?a = "\<lparr>qvalue = \<lparr>shape = [2], flat = [Num 3, Num 3]\<rparr>, qunit = Unit 1 [-2]\<rparr>"
  let ?b = "\<lparr>qvalue = \<lparr>shape = [3, 1], flat = [Num 5, Num 5, Num 5]\<rparr>, qunit = Unit 1 [0, -1]\<rparr>"
  let ?c = "\<lparr>qvalue = \<lparr>shape = [3], flat = [Num 5, Num 5, Num 5]\<rparr>, qunit = Unit 1 [0, -1]\<rparr>"
  have sp: "spatial_call (spatial_model ?m) (params example_state) two_lons two_lons = Inr ?a"
    by (simp add: SkyModel_init_def uniform_spatial_def two_lons_def)
  have se: "spectral_call (spectral_model ?m) (params example_state) energy_column = Inr ?b"
    by (simp add: SkyModel_init_def flat_spectral_def energy_column_def)
  have sr: "spectral_call (spectral_model ?m) (params example_state) energy_row = Inr ?c"
    by (simp add: SkyModel_init_def flat_spectral_def energy_row_def)
  have b1: "broadcast_shapes [2] [3, 1] = Some [3, 2]"
    by (simp add: broadcast_shapes_def)
  have b2: "broadcast_shapes [2] [3] = None"
    by (simp add: broadcast_shapes_def)
  have ia: "bitem (qvalue ?a) [2, 1] = Num 3"
    by (simp add: bitem_def item_def bindex_def)
  have ib: "bitem (qvalue ?b) [2, 1] = Num 5"
    by (simp add: bitem_def item_def bindex_def)
  have v: "valid_index [3, 2] [2, 1]"
    by simp
  have b1': "broadcast_shapes (shape (qvalue ?a)) (shape (qvalue ?b)) = Some [3, 2]"
    by (simp add: broadcast_shapes_def)
  have b2': "broadcast_shapes (shape (qvalue ?a)) (shape (qvalue ?c)) = None"
    by (simp add: broadcast_shapes_def)
  note T1 = SkyModel_evaluate_product [OF sp se]
  note T2 = SkyModel_evaluate_product [OF sp sr]
  from T1 b1' obtain r where r: "SkyModel_evaluate example_state ?m two_lons two_lons energy_column = Inr r"
      and sh: "shape (qvalue r) = [3, 2]"
      and it: "\<forall>idx. valid_index [3, 2] idx
          \<longrightarrow> item (qvalue r) idx = fmul (bitem (qvalue ?a) idx) (bitem (qvalue ?b) idx)"
    by blast
  have "item (qvalue r) [2, 1] = fmul (bitem (qvalue ?a) [2, 1]) (bitem (qvalue ?b) [2, 1])"
    using it v by blast
  then have i15: "item (qvalue r) [2, 1] = Num 15"
    by (simp only: ia ib) simp
  have ex: "\<exists>r. SkyModel_evaluate example_state ?m two_lons two_lons energy_column = Inr r
          \<and> shape (qvalue r) = [3, 2] \<and> item (qvalue r) [2, 1] = Num 15"
    using r sh i15 by blast
  have err: "SkyModel_evaluate example_state ?m two_lons two_lons energy_row = Inl ValueError"
    using T2 b2' by blast
  have pe: "params (example_state\<lparr>next_ref := 20\<rparr>) = params example_state"
    by simp
  have ee: "SkyModel_evaluate (example_state\<lparr>next_ref := 20\<rparr>) ?m two_lons two_lons energy_column
      = SkyModel_evaluate example_state ?m two_lons two_lons energy_column"
    using T1 pe by blast
  show ?thesis
    by (intro conjI) (rule sp b1 v ex b2 err pe ee)+
qed

section \<open>Evaluation of the background model\<close>

text \<open>The constructor gives a model that satisfies \<open>BackgroundModel_ok\<close>.\<close>

lemma BackgroundModel_init_establishes:
  assumes "BackgroundModel_init st0 bg nv t rf = Inr (m, st1)"
  shows "BackgroundModel_ok st1 m"
    and "bm_map m = bg"
    and "value (params st1 (bm_norm m)) = nv"
    and "value (params st1 (bm_tilt m)) = t"
    and "par_quantity (params st1 (bm_reference m)) = \<lparr>qvalue = scalar (fst rf), qunit = snd rf\<rparr>"
    and "maps st1 = maps st0" and "arrays st1 = arrays st0"
  using assms
  by (auto simp: BackgroundModel_init_def BackgroundModel_ok_def new_Parameter_def
      Parameters_init_def par_quantity_def Let_def split: sum.splits if_splits)

lemma BackgroundModel_evaluate_frame:
  assumes "BackgroundModel_evaluate st self = Inr (r, st')"
  shows "\<exists>back. r = Suc (next_ref st) \<and>
     st' = st\<lparr>arrays := (arrays st)(next_ref st := back),
              maps := (maps st)(Suc (next_ref st) := (maps st (bm_map self))\<lparr>data := next_ref st\<rparr>),
              next_ref := Suc (Suc (next_ref st))\<rparr>"
  using assms unfolding BackgroundModel_evaluate_def new_array_def Map_copy_def
  by (auto split: sum.splits)

lemma broadcast_planes:
  "broadcast_shapes [n, ny, nx] [n, 1, 1] = Some [n, ny, nx]"
  "broadcast_shapes [n, ny, nx] [n, Suc 0, Suc 0] = Some [n, ny, nx]"
  by (simp_all add: broadcast_shapes_def)

lemma getitem_ok:
  assumes "BackgroundModel_ok st self"
  shows "Parameters_getitem st (bm_parameters self) ''norm'' = Inr (bm_norm self)"
    and "Parameters_getitem st (bm_parameters self) ''tilt'' = Inr (bm_tilt self)"
    and "Parameters_getitem st (bm_parameters self) ''reference'' = Inr (bm_reference self)"
  using assms by (simp_all add: BackgroundModel_ok_def Parameters_getitem_def)

lemma BackgroundModel_evaluate_eq:
  assumes ok: "BackgroundModel_ok st self"
    and ax: "get_axis_by_name (geom (maps st (bm_map self))) ''energy'' = Inr ax"
    and u: "unit_to (unit_div (ax_unit ax) (unit (params st (bm_reference self)))) dimensionless = Inr k"
    and sh: "shape (arrays st (data (maps st (bm_map self)))) = [length (center ax), ny, nx]"
    and wf: "wf_ndarray (arrays st (data (maps st (bm_map self))))"
  shows "\<exists>back.
     np_binop fmul
       \<lparr>shape = [length (center ax), ny, nx],
        flat = map (fmul (value (params st (bm_norm self))))
                 (flat (arrays st (data (maps st (bm_map self)))))\<rparr>
       \<lparr>shape = [length (center ax), 1, 1],
        flat = map (\<lambda>c. tilt_factor c (value (params st (bm_reference self))) k
                        (value (params st (bm_tilt self)))) (center ax)\<rparr> = Inr back
     \<and> BackgroundModel_evaluate st self =
        Inr (Suc (next_ref st),
             st\<lparr>arrays := (arrays st)(next_ref st := back),
                maps := (maps st)(Suc (next_ref st) := (maps st (bm_map self))\<lparr>data := next_ref st\<rparr>),
                next_ref := Suc (Suc (next_ref st))\<rparr>)"
proof -
  let ?n = "length (center ax)"
  let ?ref = "value (params st (bm_reference self))"
  let ?tilt = "value (params st (bm_tilt self))"
  let ?nrm = "value (params st (bm_norm self))"
  let ?data = "arrays st (data (maps st (bm_map self)))"
  let ?ec = "\<lparr>shape = [?n, 1, 1], flat = center ax\<rparr>"
  have wec: "wf_ndarray ?ec" by (simp add: wf_ndarray_def)
  have ec: "energy_center st self = Inr \<lparr>qvalue = ?ec, qunit = ax_unit ax\<rparr>"
    by (simp add: energy_center_def ax)
  let ?q1 = "\<lparr>shape = [?n, 1, 1], flat = map (\<lambda>y. fdiv y ?ref) (center ax)\<rparr>"
  have qd: "quantity_div \<lparr>qvalue = ?ec, qunit = ax_unit ax\<rparr>
       (par_quantity (params st (bm_reference self)))
     = Inr \<lparr>qvalue = ?q1, qunit = unit_div (ax_unit ax) (unit (params st (bm_reference self)))\<rparr>"
    using np_binop_scalar_right [OF wec, of fdiv ?ref]
    by (simp add: quantity_div_def par_quantity_def)
  let ?q2 = "\<lparr>shape = [?n, 1, 1], flat = map (\<lambda>c. fmul (fdiv c ?ref) (Num k)) (center ax)\<rparr>"
  have qt: "quantity_to \<lparr>qvalue = ?q1, qunit = unit_div (ax_unit ax) (unit (params st (bm_reference self)))\<rparr>
       dimensionless = Inr \<lparr>qvalue = ?q2, qunit = dimensionless\<rparr>"
    by (simp add: quantity_to_def u array_scale_def comp_def)
  have wq2: "wf_ndarray ?q2" by (simp add: wf_ndarray_def)
  let ?tf = "\<lparr>shape = [?n, 1, 1], flat = map (\<lambda>c. tilt_factor c ?ref k ?tilt) (center ax)\<rparr>"
  have tf: "np_binop fpow ?q2 (scalar (fneg ?tilt)) = Inr ?tf"
    using np_binop_scalar_right [OF wq2, of fpow "fneg ?tilt"]
    by (simp add: tilt_factor_def comp_def)
  let ?sc = "\<lparr>shape = [?n, ny, nx], flat = map (fmul ?nrm) (flat ?data)\<rparr>"
  have sc: "np_binop fmul (scalar ?nrm) ?data = Inr ?sc"
    using np_binop_scalar_left [OF wf, of fmul ?nrm] by (simp add: sh)
  obtain bvals where bv: "np_binop fmul ?sc ?tf = Inr bvals"
    by (simp add: np_binop_def broadcast_planes)
  have "BackgroundModel_evaluate st self =
        Inr (Suc (next_ref st),
             st\<lparr>arrays := (arrays st)(next_ref st := bvals),
                maps := (maps st)(Suc (next_ref st) := (maps st (bm_map self))\<lparr>data := next_ref st\<rparr>),
                next_ref := Suc (Suc (next_ref st))\<rparr>)"
    by (simp del: One_nat_def add: BackgroundModel_evaluate_def getitem_ok [OF ok] ec qd qt tf sc bv
        new_array_def Map_copy_def)
  with bv show ?thesis by blast
qed

lemma bitem_plane:
  assumes "e < n" "length xs = n"
  shows "bitem \<lparr>shape = [n, 1, 1], flat = xs\<rparr> [e, i, j] = xs ! e"
  using assms by (auto simp: bitem_def item_def bindex_def)

lemma planes_item:
  assumes bv: "np_binop fmul \<lparr>shape = [n, ny, nx], flat = map (fmul c) xs\<rparr>
                 \<lparr>shape = [n, 1, 1], flat = map g cs\<rparr> = Inr bvals"
    and lx: "length xs = n * ny * nx" and lc: "length cs = n"
    and e: "e < n" and i: "i < ny" and j: "j < nx"
  shows "shape bvals = [n, ny, nx]"
    and "item bvals [e, i, j]
       = fmul (fmul c (item \<lparr>shape = [n, ny, nx], flat = xs\<rparr> [e, i, j])) (g (cs ! e))"
proof -
  show sh: "shape bvals = [n, ny, nx]"
    using np_binop_item(1) [OF bv] by (simp add: broadcast_planes)
  have v: "valid_index [n, ny, nx] [e, i, j]" using e i j by simp
  have o: "offset [n, ny, nx] [e, i, j] < length xs"
    using offset_less [OF v] lx by (simp add: mult.assoc)
  have a: "bitem \<lparr>shape = [n, ny, nx], flat = map (fmul c) xs\<rparr> [e, i, j]
      = fmul c (item \<lparr>shape = [n, ny, nx], flat = xs\<rparr> [e, i, j])"
    using o by (simp add: bitem_def bindex_valid [OF v] item_def del: offset.simps)
  have b: "bitem \<lparr>shape = [n, 1, 1], flat = map g cs\<rparr> [e, i, j] = g (cs ! e)"
    using bitem_plane [of e n "map g cs" i j] e lc by simp
  show "item bvals [e, i, j]
       = fmul (fmul c (item \<lparr>shape = [n, ny, nx], flat = xs\<rparr> [e, i, j])) (g (cs ! e))"
    using np_binop_item(3) [OF bv, of "[e, i, j]"] v sh a b by simp
qed

lemma planes_ones:
  assumes bv: "np_binop fmul \<lparr>shape = [n, ny, nx], flat = ys\<rparr>
                 \<lparr>shape = [n, 1, 1], flat = map (\<lambda>c. Num 1) cs\<rparr> = Inr bvals"
    and ly: "length ys = n * ny * nx" and lc: "length cs = n"
  shows "bvals = \<lparr>shape = [n, ny, nx], flat = ys\<rparr>"
proof -
  let ?s = "[n, ny, nx]"
  let ?a = "\<lparr>shape = ?s, flat = ys\<rparr>"
  let ?b = "\<lparr>shape = [n, 1, 1], flat = map (\<lambda>c. Num 1) cs\<rparr>"
  have wa: "wf_ndarray ?a" using ly by (simp add: wf_ndarray_def mult.assoc)
  have bv': "bvals = \<lparr>shape = ?s, flat = map (\<lambda>k. fmul (bitem ?a (unravel ?s k)) (bitem ?b (unravel ?s k)))
                        [0..<prod_list ?s]\<rparr>"
    using bv by (simp add: np_binop_def broadcast_planes del: unravel.simps prod_list.Cons)
  have el: "fmul (bitem ?a (unravel ?s k)) (bitem ?b (unravel ?s k)) = ys ! k"
    if k: "k < prod_list ?s" for k
  proof -
    have v: "valid_index ?s (unravel ?s k)" using unravel_valid [OF k] by blast
    then obtain e i j where u: "unravel ?s k = [e, i, j]" and e: "e < n"
      by (auto simp: valid_index_Cons)
    have "bitem ?b [e, i, j] = Num 1"
      using bitem_plane [of e n "map (\<lambda>c. Num 1) cs" i j] e lc by simp
    moreover have "bitem ?a (unravel ?s k) = ys ! k"
      using bitem_unravel [OF wa, of k] k by (simp del: unravel.simps prod_list.Cons)
    ultimately show ?thesis by (simp add: u del: unravel.simps)
  qed
  have "map (\<lambda>k. fmul (bitem ?a (unravel ?s k)) (bitem ?b (unravel ?s k))) [0..<prod_list ?s] = ys"
    by (rule nth_equalityI) (use ly el in \<open>simp_all add: mult.assoc del: unravel.simps\<close>)
  then show ?thesis by (simp only: bv')
qed

lemma tilt_factor_zero [simp]: "tilt_factor c r k (Num 0) = Num 1"
  by (simp add: tilt_factor_def)

text \<open>
  Claim C4. For a background model whose map has one data plane per energy bin and whose
  reference is dimensionally consistent with the energy axis, \<^verbatim>\<open>evaluate()\<close> returns a
  new map with the geometry and unit of the wrapped map, whose data has the shape of the
  wrapped data and, in each cell of the plane of energy bin \<open>e\<close>, the value
  \<open>norm * data * (center e / reference) ^ (- tilt)\<close>; when the tilt is 0 the data is
  exactly \<open>norm * data\<close>, whatever the reference value and the bin centers.
\<close>

theorem BackgroundModel_evaluate_tilted:
  assumes ok: "BackgroundModel_ok st self"
    and ax: "get_axis_by_name (geom (maps st (bm_map self))) ''energy'' = Inr ax"
    and u: "unit_to (unit_div (ax_unit ax) (unit (params st (bm_reference self)))) dimensionless = Inr k"
    and sh: "shape (arrays st (data (maps st (bm_map self)))) = [length (center ax), ny, nx]"
    and wf: "wf_ndarray (arrays st (data (maps st (bm_map self))))"
  shows "\<exists>r st'. BackgroundModel_evaluate st self = Inr (r, st')
     \<and> geom (maps st' r) = geom (maps st (bm_map self))
     \<and> map_unit (maps st' r) = map_unit (maps st (bm_map self))
     \<and> shape (arrays st' (data (maps st' r))) = [length (center ax), ny, nx]
     \<and> (\<forall>e i j. e < length (center ax) \<and> i < ny \<and> j < nx \<longrightarrow>
          item (arrays st' (data (maps st' r))) [e, i, j]
          = fmul (fmul (value (params st (bm_norm self)))
                   (item (arrays st (data (maps st (bm_map self)))) [e, i, j]))
              (tilt_factor (center ax ! e) (value (params st (bm_reference self))) k
                 (value (params st (bm_tilt self)))))
     \<and> (value (params st (bm_tilt self)) = Num 0 \<longrightarrow>
          arrays st' (data (maps st' r))
          = \<lparr>shape = shape (arrays st (data (maps st (bm_map self)))),
             flat = map (fmul (value (params st (bm_norm self))))
                      (flat (arrays st (data (maps st (bm_map self)))))\<rparr>)"
proof -
  let ?n = "length (center ax)"
  let ?data = "arrays st (data (maps st (bm_map self)))"
  let ?nrm = "value (params st (bm_norm self))"
  let ?g = "\<lambda>c. tilt_factor c (value (params st (bm_reference self))) k
                 (value (params st (bm_tilt self)))"
  let ?st' = "\<lambda>b. st\<lparr>arrays := (arrays st)(next_ref st := b),
                maps := (maps st)(Suc (next_ref st) := (maps st (bm_map self))\<lparr>data := next_ref st\<rparr>),
                next_ref := Suc (Suc (next_ref st))\<rparr>"
  obtain bvals where bv: "np_binop fmul
       \<lparr>shape = [?n, ny, nx], flat = map (fmul ?nrm) (flat ?data)\<rparr>
       \<lparr>shape = [?n, 1, 1], flat = map ?g (center ax)\<rparr> = Inr bvals"
    and ev: "BackgroundModel_evaluate st self = Inr (Suc (next_ref st), ?st' bvals)"
    using BackgroundModel_evaluate_eq [OF ok ax u sh wf] by blast
  have lx: "length (flat ?data) = ?n * ny * nx"
    using wf sh by (simp add: wf_ndarray_def mult.assoc)
  have d: "arrays (?st' bvals) (data (maps (?st' bvals) (Suc (next_ref st)))) = bvals"
    by simp
  have it: "item ?data idx = item \<lparr>shape = [?n, ny, nx], flat = flat ?data\<rparr> idx" for idx
    by (simp add: item_def sh)
  have items: "item bvals [e, i, j]
      = fmul (fmul ?nrm (item ?data [e, i, j])) (?g (center ax ! e))"
    if "e < ?n" "i < ny" "j < nx" for e i j
    using planes_item(2) [OF bv lx refl that] by (simp only: it)
  have zero: "bvals = \<lparr>shape = shape ?data, flat = map (fmul ?nrm) (flat ?data)\<rparr>"
    if t: "value (params st (bm_tilt self)) = Num 0"
  proof -
    have "np_binop fmul \<lparr>shape = [?n, ny, nx], flat = map (fmul ?nrm) (flat ?data)\<rparr>
       \<lparr>shape = [?n, 1, 1], flat = map (\<lambda>c. Num 1) (center ax)\<rparr> = Inr bvals"
      using bv by (simp only: t tilt_factor_zero)
    from planes_ones [OF this _ refl] lx show ?thesis by (simp add: sh)
  qed
  have shb: "shape bvals = [?n, ny, nx]"
    using np_binop_item(1) [OF bv] by (simp add: broadcast_planes)
  show ?thesis
  proof (intro exI conjI allI impI)
    show "BackgroundModel_evaluate st self = Inr (Suc (next_ref st), ?st' bvals)"
      by (rule ev)
    show "geom (maps (?st' bvals) (Suc (next_ref st))) = geom (maps st (bm_map self))"
      by simp
    show "map_unit (maps (?st' bvals) (Suc (next_ref st))) = map_unit (maps st (bm_map self))"
      by simp
    show "shape (arrays (?st' bvals) (data (maps (?st' bvals) (Suc (next_ref st)))))
        = [?n, ny, nx]"
      using shb by (simp only: d)
  next
    fix e i j assume "e < ?n \<and> i < ny \<and> j < nx"
    then show "item (arrays (?st' bvals) (data (maps (?st' bvals) (Suc (next_ref st))))) [e, i, j]
        = fmul (fmul ?nrm (item ?data [e, i, j])) (?g (center ax ! e))"
      using items [of e i j] by (simp only: d)
  next
    assume t: "value (params st (bm_tilt self)) = Num 0"
    show "arrays (?st' bvals) (data (maps (?st' bvals) (Suc (next_ref st))))
        = \<lparr>shape = shape ?data, flat = map (fmul ?nrm) (flat ?data)\<rparr>"
      unfolding d by (rule zero [OF t])
  qed
qed

lemma example_bkg_A_facts:
  "BackgroundModel_ok example_state bkg_A"
  "get_axis_by_name (geom (maps example_state (bm_map bkg_A))) ''energy'' = Inr energy_axis_edges"
  "unit_to (unit_div (ax_unit energy_axis_edges) (unit (params example_state (bm_reference bkg_A))))
     dimensionless = Inr 1"
  "shape (arrays example_state (data (maps example_state (bm_map bkg_A))))
     = [length (center energy_axis_edges), 1, 2]"
  "wf_ndarray (arrays example_state (data (maps example_state (bm_map bkg_A))))"
  by (simp_all add: BackgroundModel_ok_def example_state_def bkg_A_def Parameters_init_def
      get_axis_by_name_def energy_axis_edges_def unit_to_def unit_div_def TeV_def
      dimensionless_def wf_ndarray_def)

lemma tilted_bkg_A_facts:
  "BackgroundModel_ok tilted_state bkg_A"
  "get_axis_by_name (geom (maps tilted_state (bm_map bkg_A))) ''energy'' = Inr energy_axis_edges"
  "unit_to (unit_div (ax_unit energy_axis_edges) (unit (params tilted_state (bm_reference bkg_A))))
     dimensionless = Inr 1"
  "shape (arrays tilted_state (data (maps tilted_state (bm_map bkg_A))))
     = [length (center energy_axis_edges), 1, 2]"
  "wf_ndarray (arrays tilted_state (data (maps tilted_state (bm_map bkg_A))))"
  by (simp_all add: BackgroundModel_ok_def tilted_state_def example_state_def bkg_A_def
      Parameters_init_def get_axis_by_name_def energy_axis_edges_def unit_to_def unit_div_def
      TeV_def dimensionless_def wf_ndarray_def)


theorem BackgroundModel_evaluate_tilted_witness:
  "(BackgroundModel_ok example_state bkg_A
   \<and> get_axis_by_name (geom (maps example_state (bm_map bkg_A))) ''energy''
       = Inr energy_axis_edges
   \<and> unit_to (unit_div (ax_unit energy_axis_edges)
         (unit (params example_state (bm_reference bkg_A)))) dimensionless = Inr 1
   \<and> shape (arrays example_state (data (maps example_state (bm_map bkg_A))))
       = [length (center energy_axis_edges), 1, 2]
   \<and> wf_ndarray (arrays example_state (data (maps example_state (bm_map bkg_A))))
   \<and> value (params example_state (bm_tilt bkg_A)) = Num 0
   \<and> (\<exists>r st'. BackgroundModel_evaluate example_state bkg_A = Inr (r, st')
        \<and> geom (maps st' r) = \<lparr>axes = [energy_axis_edges]\<rparr>
        \<and> map_unit (maps st' r) = dimensionless
        \<and> item (arrays st' (data (maps st' r))) [1, 0, 1] = Num 8
        \<and> arrays st' (data (maps st' r))
            = \<lparr>shape = [2, 1, 2], flat = [Num 2, Num 4, Num 6, Num 8]\<rparr>))
   \<and> (\<exists>r st'. BackgroundModel_evaluate tilted_state bkg_A = Inr (r, st')
        \<and> item (arrays st' (data (maps st' r))) [1, 0, 1] = Num 80)"
proof -
  have w1: "BackgroundModel_ok example_state bkg_A
   \<and> get_axis_by_name (geom (maps example_state (bm_map bkg_A))) ''energy''
       = Inr energy_axis_edges
   \<and> unit_to (unit_div (ax_unit energy_axis_edges)
         (unit (params example_state (bm_reference bkg_A)))) dimensionless = Inr 1
   \<and> shape (arrays example_state (data (maps example_state (bm_map bkg_A))))
       = [length (center energy_axis_edges), 1, 2]
   \<and> wf_ndarray (arrays example_state (data (maps example_state (bm_map bkg_A))))
   \<and> value (params example_state (bm_tilt bkg_A)) = Num 0
   \<and> (\<exists>r st'. BackgroundModel_evaluate example_state bkg_A = Inr (r, st')
        \<and> geom (maps st' r) = \<lparr>axes = [energy_axis_edges]\<rparr>
        \<and> map_unit (maps st' r) = dimensionless
        \<and> item (arrays st' (data (maps st' r))) [1, 0, 1] = Num 8
        \<and> arrays st' (data (maps st' r))
            = \<lparr>shape = [2, 1, 2], flat = [Num 2, Num 4, Num 6, Num 8]\<rparr>)"
  proof -
  note f = example_bkg_A_facts
  have t: "value (params example_state (bm_tilt bkg_A)) = Num 0"
    by (simp add: example_state_def bkg_A_def)
  have n: "value (params example_state (bm_norm bkg_A)) = Num 2"
    by (simp add: example_state_def bkg_A_def)
  have dt: "arrays example_state (data (maps example_state (bm_map bkg_A)))
      = \<lparr>shape = [2, 1, 2], flat = [Num 1, Num 2, Num 3, Num 4]\<rparr>"
    by (simp add: example_state_def)
  have g: "geom (maps example_state (bm_map bkg_A)) = \<lparr>axes = [energy_axis_edges]\<rparr>"
    "map_unit (maps example_state (bm_map bkg_A)) = dimensionless"
    by (simp_all add: example_state_def bkg_A_def)
  from BackgroundModel_evaluate_tilted [OF f]
  obtain r st' where ev: "BackgroundModel_evaluate example_state bkg_A = Inr (r, st')"
    and ge: "geom (maps st' r) = geom (maps example_state (bm_map bkg_A))"
    and un: "map_unit (maps st' r) = map_unit (maps example_state (bm_map bkg_A))"
    and z: "value (params example_state (bm_tilt bkg_A)) = Num 0 \<longrightarrow>
          arrays st' (data (maps st' r))
          = \<lparr>shape = shape (arrays example_state (data (maps example_state (bm_map bkg_A)))),
             flat = map (fmul (value (params example_state (bm_norm bkg_A))))
                      (flat (arrays example_state (data (maps example_state (bm_map bkg_A)))))\<rparr>"
    by blast
  have ar: "arrays st' (data (maps st' r))
      = \<lparr>shape = [2, 1, 2], flat = [Num 2, Num 4, Num 6, Num 8]\<rparr>"
    using z t by (simp add: n dt)
  have i8: "item (arrays st' (data (maps st' r))) [1, 0, 1] = Num 8"
    by (simp add: ar item_def)
  have ex: "\<exists>r st'. BackgroundModel_evaluate example_state bkg_A = Inr (r, st')
        \<and> geom (maps st' r) = \<lparr>axes = [energy_axis_edges]\<rparr>
        \<and> map_unit (maps st' r) = dimensionless
        \<and> item (arrays st' (data (maps st' r))) [1, 0, 1] = Num 8
        \<and> arrays st' (data (maps st' r))
            = \<lparr>shape = [2, 1, 2], flat = [Num 2, Num 4, Num 6, Num 8]\<rparr>"
    using ev ge un i8 ar g by auto
    show ?thesis
      by (intro conjI) (rule f t ex)+
  qed
  have w2: "\<exists>r st'. BackgroundModel_evaluate tilted_state bkg_A = Inr (r, st')
        \<and> item (arrays st' (data (maps st' r))) [1, 0, 1] = Num 80"
  proof -
  from BackgroundModel_evaluate_tilted [OF tilted_bkg_A_facts]
  obtain r st' where ev: "BackgroundModel_evaluate tilted_state bkg_A = Inr (r, st')"
    and it: "\<forall>e i j. e < length (center energy_axis_edges) \<and> i < 1 \<and> j < 2 \<longrightarrow>
          item (arrays st' (data (maps st' r))) [e, i, j]
          = fmul (fmul (value (params tilted_state (bm_norm bkg_A)))
                   (item (arrays tilted_state (data (maps tilted_state (bm_map bkg_A)))) [e, i, j]))
              (tilt_factor (center energy_axis_edges ! e)
                 (value (params tilted_state (bm_reference bkg_A))) 1
                 (value (params tilted_state (bm_tilt bkg_A))))"
    by blast
  have l: "(1::nat) < length (center energy_axis_edges) \<and> (0::nat) < 1 \<and> (1::nat) < 2"
    by (simp add: energy_axis_edges_def)
  have n: "value (params tilted_state (bm_norm bkg_A)) = Num 2"
    "value (params tilted_state (bm_reference bkg_A)) = Num 1"
    "value (params tilted_state (bm_tilt bkg_A)) = Num (- 1)"
    by (simp_all add: tilted_state_def example_state_def bkg_A_def)
  have d: "item (arrays tilted_state (data (maps tilted_state (bm_map bkg_A)))) [1, 0, 1] = Num 4"
    by (simp add: tilted_state_def example_state_def item_def)
  have c: "center energy_axis_edges ! 1 = Num 10"
    by (simp add: energy_axis_edges_def)
  have tfv: "tilt_factor (Num 10) (Num 1) 1 (Num (- 1)) = Num 10"
    by (simp add: tilt_factor_def)
  have "item (arrays st' (data (maps st' r))) [1, 0, 1]
      = fmul (fmul (Num 2) (Num 4)) (tilt_factor (Num 10) (Num 1) 1 (Num (- 1)))"
    using it [rule_format, OF l] by (simp only: n d c)
  then have "item (arrays st' (data (maps st' r))) [1, 0, 1] = Num 80"
    by (simp only: tfv) simp
    with ev show ?thesis by blast
  qed
  show ?thesis using w1 w2 by (rule conjI)
qed

text \<open>
  Claim C10. A call of \<^verbatim>\<open>evaluate()\<close> on a background model whose map and data
  array are in the store leaves every parameter, hence the norm, the tilt and the
  reference, and every map and array already in the store as they were. The returned map
  and its data array are new objects: a later write to the returned data leaves the data
  of the wrapped map as it was before the call.
\<close>

theorem BackgroundModel_evaluate_leaves_model_unchanged:
  assumes ev: "BackgroundModel_evaluate st self = Inr (r, st')"
    and am: "bm_map self < next_ref st"
    and ad: "data (maps st (bm_map self)) < next_ref st"
  shows "params st' = params st
     \<and> maps st' (bm_map self) = maps st (bm_map self)
     \<and> arrays st' (data (maps st' (bm_map self))) = arrays st (data (maps st (bm_map self)))
     \<and> (\<forall>a < next_ref st. arrays st' a = arrays st a \<and> maps st' a = maps st a)
     \<and> next_ref st \<le> r
     \<and> r \<noteq> bm_map self
     \<and> next_ref st \<le> data (maps st' r)
     \<and> data (maps st' r) \<noteq> data (maps st' (bm_map self))
     \<and> (\<forall>x. arrays (st'\<lparr>arrays := (arrays st')(data (maps st' r) := x)\<rparr>)
               (data (maps st' (bm_map self)))
             = arrays st (data (maps st (bm_map self))))"
proof -
  from BackgroundModel_evaluate_frame [OF ev] obtain bvals where r: "r = Suc (next_ref st)"
    and st': "st' = st\<lparr>arrays := (arrays st)(next_ref st := bvals),
              maps := (maps st)(Suc (next_ref st) := (maps st (bm_map self))\<lparr>data := next_ref st\<rparr>),
              next_ref := Suc (Suc (next_ref st))\<rparr>"
    by blast
  show ?thesis using am ad by (simp add: r st')
qed

theorem BackgroundModel_evaluate_leaves_model_unchanged_witness:
  "\<exists>r st'. BackgroundModel_evaluate example_state bkg_A = Inr (r, st')
     \<and> bm_map bkg_A < next_ref example_state
     \<and> data (maps example_state (bm_map bkg_A)) < next_ref example_state
     \<and> params st' = params example_state
     \<and> maps st' (bm_map bkg_A) = maps example_state (bm_map bkg_A)
     \<and> r \<noteq> bm_map bkg_A
     \<and> data (maps st' r) \<noteq> data (maps st' (bm_map bkg_A))
     \<and> arrays (st'\<lparr>arrays := (arrays st')(data (maps st' r) := scalar (Num 0))\<rparr>)
           (data (maps st' (bm_map bkg_A)))
         = \<lparr>shape = [2, 1, 2], flat = [Num 1, Num 2, Num 3, Num 4]\<rparr>"
proof -
  from BackgroundModel_evaluate_eq [OF example_bkg_A_facts]
  obtain r st' where ev: "BackgroundModel_evaluate example_state bkg_A = Inr (r, st')"
    by blast
  have am: "bm_map bkg_A < next_ref example_state"
    by (simp add: example_state_def bkg_A_def)
  have ad: "data (maps example_state (bm_map bkg_A)) < next_ref example_state"
    by (simp add: example_state_def bkg_A_def)
  have dt: "arrays example_state (data (maps example_state (bm_map bkg_A)))
      = \<lparr>shape = [2, 1, 2], flat = [Num 1, Num 2, Num 3, Num 4]\<rparr>"
    by (simp add: example_state_def)
  note T = BackgroundModel_evaluate_leaves_model_unchanged [OF ev am ad]
  have w: "arrays (st'\<lparr>arrays := (arrays st')(data (maps st' r) := scalar (Num 0))\<rparr>)
           (data (maps st' (bm_map bkg_A)))
         = \<lparr>shape = [2, 1, 2], flat = [Num 1, Num 2, Num 3, Num 4]\<rparr>"
    using T dt by metis
  from T have p: "params st' = params example_state"
    and m: "maps st' (bm_map bkg_A) = maps example_state (bm_map bkg_A)"
    and rn: "r \<noteq> bm_map bkg_A"
    and dn: "data (maps st' r) \<noteq> data (maps st' (bm_map bkg_A))"
    by blast+
  show ?thesis
    using ev am ad p m rn dn w by blast
qed

section \<open>Evaluation of the template cube model\<close>

lemma SkyDiffuseCube_init_establishes:
  assumes "SkyDiffuseCube_init st0 mp nv meta ikw = Inr (c, st1)"
  shows "SkyDiffuseCube_ok st1 c"
    and "sdc_map c = mp"
    and "value (params st1 (sdc_norm c)) = nv"
    and "maps st1 = maps st0" and "arrays st1 = arrays st0"
    and "interp_kwargs c ''interp'' =
           Some (case (case ikw of None \<Rightarrow> None | Some d \<Rightarrow> d ''interp'') of
                   None \<Rightarrow> KStr ''linear'' | Some v \<Rightarrow> v)"
    and "interp_kwargs c ''fill_value'' =
           Some (case (case ikw of None \<Rightarrow> None | Some d \<Rightarrow> d ''fill_value'') of
                   None \<Rightarrow> KNum (Num 0) | Some v \<Rightarrow> v)"
  using assms
  by (auto simp: SkyDiffuseCube_init_def SkyDiffuseCube_ok_def new_Parameter_def
      Parameters_init_def setdefault_def Let_def
      split: sum.splits if_splits option.splits)

lemma to_value_deg:
  "unit_to (qunit q) deg = Inr k \<Longrightarrow> to_value q deg = Inr (array_scale k (qvalue q))"
  by (simp add: to_value_def quantity_to_def)

lemma shape_array_scale [simp]: "shape (array_scale k a) = shape a"
  by (simp add: array_scale_def)

lemma SkyDiffuseCube_evaluate_eq:
  assumes ok: "SkyDiffuseCube_ok st self"
    and ki: "interp_kwargs self ''interp'' = Some (KStr i)"
    and kf: "interp_kwargs self ''fill_value'' = Some (KNum f)"
    and ul: "unit_to (qunit lon) deg = Inr kl"
    and ub: "unit_to (qunit lat) deg = Inr kb"
    and s1: "broadcast_shapes (shape (qvalue lon)) (shape (qvalue lat)) = Some s1"
    and s: "broadcast_shapes s1 (shape (qvalue energy)) = Some s"
  shows "SkyDiffuseCube_evaluate mi st self lon lat energy =
     Inr \<lparr>qvalue = \<lparr>shape = s,
            flat = map (\<lambda>k. fmul (value (params st (sdc_norm self)))
              (if inside mi (geom (maps st (sdc_map self)))
                    (query_point \<lparr>c_lon = array_scale kl (qvalue lon),
                       c_lat = array_scale kb (qvalue lat), c_energy = energy\<rparr> (unravel s k))
               then interpolate mi i (geom (maps st (sdc_map self)))
                      (arrays st (data (maps st (sdc_map self))))
                      (query_point \<lparr>c_lon = array_scale kl (qvalue lon),
                         c_lat = array_scale kb (qvalue lat), c_energy = energy\<rparr> (unravel s k))
               else f)) [0..<prod_list s]\<rparr>,
          qunit = map_unit (maps st (sdc_map self))\<rparr>"
proof -
  let ?c = "\<lparr>c_lon = array_scale kl (qvalue lon), c_lat = array_scale kb (qvalue lat),
             c_energy = energy\<rparr>"
  let ?h = "\<lambda>k. if inside mi (geom (maps st (sdc_map self))) (query_point ?c (unravel s k))
               then interpolate mi i (geom (maps st (sdc_map self)))
                      (arrays st (data (maps st (sdc_map self)))) (query_point ?c (unravel s k))
               else f"
  let ?val = "\<lparr>shape = s, flat = map ?h [0..<prod_list s]\<rparr>"
  have g: "Parameters_getitem st (sdc_parameters self) ''norm'' = Inr (sdc_norm self)"
    using ok by (simp add: SkyDiffuseCube_ok_def Parameters_getitem_def)
  have ic: "interp_by_coord_kwargs mi st (maps st (sdc_map self)) ?c (interp_kwargs self) = Inr ?val"
    by (simp add: interp_by_coord_kwargs_def ki kf Map_interp_by_coord_def s1 s query_point_def Let_def)
  have wv: "wf_ndarray ?val" by (simp add: wf_ndarray_def)
  have m: "np_binop fmul (scalar (value (params st (sdc_norm self)))) ?val
      = Inr \<lparr>shape = s, flat = map (fmul (value (params st (sdc_norm self)))) (map ?h [0..<prod_list s])\<rparr>"
    using np_binop_scalar_left [OF wv, of fmul "value (params st (sdc_norm self))"] by simp
  show ?thesis
    by (simp add: SkyDiffuseCube_evaluate_def to_value_deg [OF ul] to_value_deg [OF ub] ic g m comp_def)
qed

text \<open>
  Claim C9. The constructor keeps the interpolation options it is given and fills in
  \<open>linear\<close> and the fill value 0 for those it is not given. \<^verbatim>\<open>evaluate\<close> converts
  longitude and latitude to degrees, interpolates the wrapped map at the broadcast
  coordinates with the configured mode and fill value, and returns, with the unit of the
  map, the current norm times the interpolated value: at a point outside the map's
  domain that is the norm times the fill value, and no query point makes the call raise.
\<close>

theorem SkyDiffuseCube_evaluate_interpolates:
  "(SkyDiffuseCube_init st0 mp nv meta ikw = Inr (c, st1) \<longrightarrow>
      SkyDiffuseCube_ok st1 c \<and> sdc_map c = mp \<and> value (params st1 (sdc_norm c)) = nv
      \<and> maps st1 = maps st0 \<and> arrays st1 = arrays st0
      \<and> interp_kwargs c ''interp'' =
           Some (case (case ikw of None \<Rightarrow> None | Some d \<Rightarrow> d ''interp'') of
                   None \<Rightarrow> KStr ''linear'' | Some v \<Rightarrow> v)
      \<and> interp_kwargs c ''fill_value'' =
           Some (case (case ikw of None \<Rightarrow> None | Some d \<Rightarrow> d ''fill_value'') of
                   None \<Rightarrow> KNum (Num 0) | Some v \<Rightarrow> v))
   \<and> (SkyDiffuseCube_ok st self
      \<and> interp_kwargs self ''interp'' = Some (KStr i)
      \<and> interp_kwargs self ''fill_value'' = Some (KNum f)
      \<and> unit_to (qunit lon) deg = Inr kl
      \<and> unit_to (qunit lat) deg = Inr kb
      \<and> broadcast_shapes (shape (qvalue lon)) (shape (qvalue lat)) = Some s1
      \<and> broadcast_shapes s1 (shape (qvalue energy)) = Some s \<longrightarrow>
      (\<exists>q. SkyDiffuseCube_evaluate mi st self lon lat energy = Inr q
         \<and> qunit q = map_unit (maps st (sdc_map self))
         \<and> shape (qvalue q) = s
         \<and> (\<forall>idx. valid_index s idx \<longrightarrow>
              item (qvalue q) idx =
                fmul (value (params st (sdc_norm self)))
                  (if inside mi (geom (maps st (sdc_map self)))
                        (query_point \<lparr>c_lon = array_scale kl (qvalue lon),
                           c_lat = array_scale kb (qvalue lat), c_energy = energy\<rparr> idx)
                   then interpolate mi i (geom (maps st (sdc_map self)))
                          (arrays st (data (maps st (sdc_map self))))
                          (query_point \<lparr>c_lon = array_scale kl (qvalue lon),
                             c_lat = array_scale kb (qvalue lat), c_energy = energy\<rparr> idx)
                   else f))))"
proof (intro conjI impI)
  assume a: "SkyDiffuseCube_init st0 mp nv meta ikw = Inr (c, st1)"
  show "SkyDiffuseCube_ok st1 c" by (rule SkyDiffuseCube_init_establishes(1) [OF a])
  show "sdc_map c = mp" by (rule SkyDiffuseCube_init_establishes(2) [OF a])
  show "value (params st1 (sdc_norm c)) = nv" by (rule SkyDiffuseCube_init_establishes(3) [OF a])
  show "maps st1 = maps st0" by (rule SkyDiffuseCube_init_establishes(4) [OF a])
  show "arrays st1 = arrays st0" by (rule SkyDiffuseCube_init_establishes(5) [OF a])
  show "interp_kwargs c ''interp'' =
           Some (case (case ikw of None \<Rightarrow> None | Some d \<Rightarrow> d ''interp'') of
                   None \<Rightarrow> KStr ''linear'' | Some v \<Rightarrow> v)"
    by (rule SkyDiffuseCube_init_establishes(6) [OF a])
  show "interp_kwargs c ''fill_value'' =
           Some (case (case ikw of None \<Rightarrow> None | Some d \<Rightarrow> d ''fill_value'') of
                   None \<Rightarrow> KNum (Num 0) | Some v \<Rightarrow> v)"
    by (rule SkyDiffuseCube_init_establishes(7) [OF a])
next
  let ?c = "\<lparr>c_lon = array_scale kl (qvalue lon), c_lat = array_scale kb (qvalue lat),
             c_energy = energy\<rparr>"
  let ?h = "\<lambda>idx. fmul (value (params st (sdc_norm self)))
              (if inside mi (geom (maps st (sdc_map self))) (query_point ?c idx)
               then interpolate mi i (geom (maps st (sdc_map self)))
                      (arrays st (data (maps st (sdc_map self)))) (query_point ?c idx)
               else f)"
  assume h: "SkyDiffuseCube_ok st self
      \<and> interp_kwargs self ''interp'' = Some (KStr i)
      \<and> interp_kwargs self ''fill_value'' = Some (KNum f)
      \<and> unit_to (qunit lon) deg = Inr kl
      \<and> unit_to (qunit lat) deg = Inr kb
      \<and> broadcast_shapes (shape (qvalue lon)) (shape (qvalue lat)) = Some s1
      \<and> broadcast_shapes s1 (shape (qvalue energy)) = Some s"
  then have ev: "SkyDiffuseCube_evaluate mi st self lon lat energy =
     Inr \<lparr>qvalue = \<lparr>shape = s, flat = map (\<lambda>k. ?h (unravel s k)) [0..<prod_list s]\<rparr>,
          qunit = map_unit (maps st (sdc_map self))\<rparr>"
    using SkyDiffuseCube_evaluate_eq [of st self i f lon kl lat kb s1 energy s mi] by blast
  have it: "item \<lparr>shape = s, flat = map (\<lambda>k. ?h (unravel s k)) [0..<prod_list s]\<rparr> idx = ?h idx"
    if v: "valid_index s idx" for idx
    using offset_less [OF v] unravel_offset [OF v] by (simp add: item_def)
  show "\<exists>q. SkyDiffuseCube_evaluate mi st self lon lat energy = Inr q
         \<and> qunit q = map_unit (maps st (sdc_map self))
         \<and> shape (qvalue q) = s
         \<and> (\<forall>idx. valid_index s idx \<longrightarrow> item (qvalue q) idx = ?h idx)"
    using ev it by simp
qed

theorem SkyDiffuseCube_evaluate_interpolates_witness:
  "\<exists>c st1. SkyDiffuseCube_init example_state 0 (Num 2) None None = Inr (c, st1)
     \<and> SkyDiffuseCube_ok st1 c
     \<and> interp_kwargs c ''interp'' = Some (KStr ''linear'')
     \<and> interp_kwargs c ''fill_value'' = Some (KNum (Num 0))
     \<and> unit_to (qunit two_lons) deg = Inr 1
     \<and> broadcast_shapes (shape (qvalue two_lons)) (shape (qvalue two_lons)) = Some [2]
     \<and> broadcast_shapes [2] (shape (qvalue energy_column)) = Some [3, 2]
     \<and> (\<exists>q. SkyDiffuseCube_evaluate example_internals st1 c two_lons two_lons energy_column
              = Inr q
          \<and> qunit q = Unit 1 [0, -1]
          \<and> shape (qvalue q) = [3, 2]
          \<and> item (qvalue q) [2, 0] = Num 14
          \<and> item (qvalue q) [2, 1] = Num 0)"
proof -
  obtain c st1 where init: "SkyDiffuseCube_init example_state 0 (Num 2) None None = Inr (c, st1)"
    by (simp add: SkyDiffuseCube_init_def get_axis_by_name_def example_state_def
        energy_axis_center_def new_Parameter_def)
  note A = SkyDiffuseCube_evaluate_interpolates
    [where ?st0.0 = example_state and mp = 0 and nv = "Num 2" and meta = None and ikw = None
       and c = c and ?st1.0 = st1, THEN conjunct1, rule_format, OF init]
  from A have ok: "SkyDiffuseCube_ok st1 c" and mp: "sdc_map c = 0"
    and nv: "value (params st1 (sdc_norm c)) = Num 2"
    and ms: "maps st1 = maps example_state"
    and ki: "interp_kwargs c ''interp'' = Some (KStr ''linear'')"
    and kf: "interp_kwargs c ''fill_value'' = Some (KNum (Num 0))"
    by simp_all
  have u: "unit_to (qunit two_lons) deg = Inr 1"
    by (simp add: unit_to_def two_lons_def deg_def)
  have b1: "broadcast_shapes (shape (qvalue two_lons)) (shape (qvalue two_lons)) = Some [2]"
    by (simp add: broadcast_shapes_def two_lons_def)
  have b2: "broadcast_shapes [2] (shape (qvalue energy_column)) = Some [3, 2]"
    by (simp add: broadcast_shapes_def energy_column_def)
  note B = SkyDiffuseCube_evaluate_interpolates
    [where st = st1 and self = c and i = "''linear''" and f = "Num 0" and lon = two_lons
       and kl = 1 and lat = two_lons and kb = 1 and ?s1.0 = "[2]" and energy = energy_column
       and s = "[3, 2]" and mi = example_internals, THEN conjunct2, rule_format]
  from B ok ki kf u b1 b2
  obtain q where ev: "SkyDiffuseCube_evaluate example_internals st1 c two_lons two_lons energy_column
        = Inr q"
    and qu: "qunit q = map_unit (maps st1 (sdc_map c))"
    and sh: "shape (qvalue q) = [3, 2]"
    and it: "\<And>idx. valid_index [3, 2] idx \<Longrightarrow>
        item (qvalue q) idx =
          fmul (value (params st1 (sdc_norm c)))
            (if inside example_internals (geom (maps st1 (sdc_map c)))
                  (query_point \<lparr>c_lon = array_scale 1 (qvalue two_lons),
                     c_lat = array_scale 1 (qvalue two_lons), c_energy = energy_column\<rparr> idx)
             then interpolate example_internals ''linear'' (geom (maps st1 (sdc_map c)))
                    (arrays st1 (data (maps st1 (sdc_map c))))
                    (query_point \<lparr>c_lon = array_scale 1 (qvalue two_lons),
                       c_lat = array_scale 1 (qvalue two_lons), c_energy = energy_column\<rparr> idx)
             else Num 0)"
    by blast
  have qu': "qunit q = Unit 1 [0, -1]"
    by (simp add: qu mp ms example_state_def)
  have p0: "fst (query_point \<lparr>c_lon = array_scale 1 (qvalue two_lons),
                     c_lat = array_scale 1 (qvalue two_lons), c_energy = energy_column\<rparr> [2, 0])
      = Num 0"
    by (simp add: query_point_def bitem_def item_def bindex_def array_scale_def two_lons_def)
  have p1: "fst (query_point \<lparr>c_lon = array_scale 1 (qvalue two_lons),
                     c_lat = array_scale 1 (qvalue two_lons), c_energy = energy_column\<rparr> [2, 1])
      = Num 1"
    by (simp add: query_point_def bitem_def item_def bindex_def array_scale_def two_lons_def)
  have i0: "item (qvalue q) [2, 0] = Num 14"
    using it [of "[2, 0]"] by (simp add: nv p0 example_internals_def)
  have i1: "item (qvalue q) [2, 1] = Num 0"
    using it [of "[2, 1]"] by (simp del: One_nat_def add: nv p1 example_internals_def)
  have ex: "\<exists>q. SkyDiffuseCube_evaluate example_internals st1 c two_lons two_lons energy_column
              = Inr q
          \<and> qunit q = Unit 1 [0, -1]
          \<and> shape (qvalue q) = [3, 2]
          \<and> item (qvalue q) [2, 0] = Num 14
          \<and> item (qvalue q) [2, 1] = Num 0"
    using ev qu' sh i0 i1 by blast
  show ?thesis
    using init ok ki kf u b1 b2 ex by blast
qed

end
